theory Spec2Isabelle
  imports Complex_Main "HOL-Library.Log_Nat" "HOL-Library.AList"
begin

section \<open>JavaScript numbers and BigInts\<close>

text \<open>
  The store of \<^verbatim>\<open>src/stores/validatorStore.ts\<close> computes with two numeric types:
  \<^verbatim>\<open>bigint\<close> (unbounded integers, modelled as \<^typ>\<open>int\<close>) and \<^verbatim>\<open>number\<close> (IEEE 754
  binary64). A finite \<^verbatim>\<open>number\<close> is modelled by the rational it denotes; every
  arithmetic operation rounds its exact result to the nearest binary64 value, ties to
  even (\<open>fl\<close>). Infinities, NaN and the sign of zero are outside the model: the source
  divides only by values it has tested to be non-zero, and its quantities (32-bit points
  and per-billion commissions, 128-bit balances) are far below the overflow threshold.
\<close>

type_synonym number = rat

definition pow2 :: "int \<Rightarrow> rat" where
  "pow2 e = (if 0 \<le> e then 2 ^ nat e else 1 / 2 ^ nat (- e))"

text \<open>\<open>ilog2 x\<close> is the integer \<open>d\<close> with \<open>2^d \<le> x < 2^(d+1)\<close>, for positive \<open>x\<close>.\<close>

definition ilog2 :: "rat \<Rightarrow> int" where
  "ilog2 x = (let (a, b) = quotient_of x; d = bitlen a - bitlen b
              in if pow2 d \<le> x then d else d - 1)"

definition round_half_even :: "rat \<Rightarrow> int" where
  "round_half_even m =
     (let f = \<lfloor>m\<rfloor>; r = m - of_int f
      in if r < 1 / 2 then f else if 1 / 2 < r then f + 1
         else if even f then f else f + 1)"

text \<open>
  Rounding to binary64: 53 significant bits, the exponent of the last place never below
  \<open>-1074\<close> (subnormal numbers).
\<close>

definition fl :: "rat \<Rightarrow> number" where
  "fl x = (if x = 0 then 0
           else let e = max (ilog2 \<bar>x\<bar>) (- 1022) - 52
                in sgn x * of_int (round_half_even (\<bar>x\<bar> / pow2 e)) * pow2 e)"

definition js_add :: "number \<Rightarrow> number \<Rightarrow> number" where
  "js_add a b = fl (a + b)"

definition js_mul :: "number \<Rightarrow> number \<Rightarrow> number" where
  "js_mul a b = fl (a * b)"

text \<open>\<^verbatim>\<open>a / b\<close> on numbers; the source only divides by non-zero values.\<close>

definition js_div :: "number \<Rightarrow> number \<Rightarrow> number" where
  "js_div a b = fl (a / b)"

text \<open>\<^verbatim>\<open>Number(b)\<close> for a bigint \<open>b\<close>, and \<^verbatim>\<open>BigInt(Math.floor(x))\<close>.\<close>

definition Number :: "int \<Rightarrow> number" where
  "Number b = fl (of_int b)"

definition BigInt_floor :: "number \<Rightarrow> int" where
  "BigInt_floor x = \<lfloor>x\<rfloor>"

text \<open>\<^verbatim>\<open>a / b\<close> on bigints truncates towards zero.\<close>

definition bigint_div :: "int \<Rightarrow> int \<Rightarrow> int" where
  "bigint_div a b = sgn a * sgn b * (\<bar>a\<bar> div \<bar>b\<bar>)"

text \<open>\<^verbatim>\<open>xs.reduce((a, b) => a + b, 0)\<close>.\<close>

definition js_sum :: "number list \<Rightarrow> number" where
  "js_sum xs = foldl js_add 0 xs"

text \<open>\<^verbatim>\<open>x || 0\<close> for an optional number.\<close>

definition or0 :: "number option \<Rightarrow> number" where
  "or0 x = (case x of None \<Rightarrow> 0 | Some v \<Rightarrow> v)"

section \<open>Arrays and era-keyed objects\<close>

text \<open>\<^verbatim>\<open>xs.slice(start, end)\<close>: negative indices count from the end, and both are clamped.\<close>

definition js_slice :: "'a list \<Rightarrow> int \<Rightarrow> int \<Rightarrow> 'a list" where
  "js_slice xs start end =
     (let n = int (length xs);
          k = (if start < 0 then max (n + start) 0 else min start n);
          f = (if end < 0 then max (n + end) 0 else min end n)
      in take (nat (f - k)) (drop (nat k) xs))"

text \<open>
  The batch loop \<^verbatim>\<open>for (let i = 0; i < xs.length; i += batchSize) xs.slice(i, i + batchSize)\<close>.
  Every batch size of the source is a positive literal (50, 25, 10, 5, 3).
\<close>

function batches :: "nat \<Rightarrow> 'a list \<Rightarrow> 'a list list" where
  "batches b xs = (if b = 0 \<or> xs = [] then [] else take b xs # batches b (drop b xs))"
  by pat_completeness auto
termination
  by (relation "measure (\<lambda>(b, xs). length xs)") auto

declare batches.simps [simp del]

text \<open>
  \<^verbatim>\<open>await Promise.all(batch.map(f))\<close> inside the batch loop. The items of a batch are run one
  after the other in array order, each on the state left by the one before: the store is
  single-threaded, and the callbacks touch the state only through \<^verbatim>\<open>set\<close>.
\<close>

fun runItems :: "('a \<Rightarrow> 's \<Rightarrow> 'r \<times> 's) \<Rightarrow> 'a list \<Rightarrow> 's \<Rightarrow> 'r list \<times> 's" where
  "runItems f [] s = ([], s)"
| "runItems f (x # xs) s =
     (let (r, s1) = f x s; (rs, s2) = runItems f xs s1 in (r # rs, s2))"

text \<open>
  A \<^verbatim>\<open>Record<number, T>\<close> keyed by era is an association list with distinct keys:
  \<^verbatim>\<open>m[era] = v\<close> is \<open>AList.update\<close>, \<^verbatim>\<open>m[era]\<close> is \<open>map_of\<close>, \<^verbatim>\<open>Object.keys(m).length\<close> is
  the length, and \<^verbatim>\<open>Object.values(m)\<close> lists the values by ascending key (the enumeration
  order of integer keys).
\<close>

type_synonym 'a era_record = "(int \<times> 'a) list"

definition Object_values :: "'a era_record \<Rightarrow> 'a list" where
  "Object_values m = map snd (sort_key fst m)"

section \<open>Data model\<close>

record Performance =
  currentEraPoints :: number
  previousErasPoints :: "number era_record"
  averagePoints :: number

record Rewards =
  currentEraReward :: int
  previousErasRewards :: "int era_record"
  apyByEra :: "number era_record"
  averageAPY :: number
  activeOnlyAverageAPY :: number

record Validator =
  address :: string
  commission :: number
  blockedNominations :: bool
  totalStake :: int
  ownStake :: int
  lastEraAPY :: number
  performance :: Performance
  rewards :: Rewards
  historicalCommission :: "number era_record"
  averageCommission :: number

text \<open>
  The elements of \<^verbatim>\<open>allValidators\<close> (\<^verbatim>\<open>{address, points}\<close>) and of \<^verbatim>\<open>filteredValidators\<close>
  (\<^verbatim>\<open>{address, points, lastEraAPY?}\<close>); a missing \<^verbatim>\<open>lastEraAPY\<close> is \<open>None\<close>. The fields are
  prefixed, as their names are those of fields of \<open>Validator\<close>.
\<close>

record ValidatorEntry =
  entryAddress :: string
  entryPoints :: number
  entryLastEraAPY :: "number option"

subsection \<open>The remote chain-state service\<close>

text \<open>
  \<^verbatim>\<open>typedApi.query.*.getValue\<close> returns a promise: it rejects (with a message) or
  resolves, to a value or to \<^verbatim>\<open>undefined\<close>. The answers are a function of the query.
\<close>

datatype 'a reply = Rejects string | Resolves 'a

record EraRewardPoints =
  total_points :: number
  individual :: "(string \<times> number) list"

record ValidatorPrefs =
  prefsCommission :: number
  blocked :: bool

record StakersOverview =
  overviewTotal :: int
  overviewOwn :: int

record Remote =
  ErasValidatorReward :: "int \<Rightarrow> int option reply"
  ErasRewardPoints :: "int \<Rightarrow> EraRewardPoints option reply"
  Validators :: "string \<Rightarrow> ValidatorPrefs option reply"
  ErasValidatorPrefs :: "int \<Rightarrow> string \<Rightarrow> ValidatorPrefs option reply"
  ErasStakersOverview :: "int \<Rightarrow> string \<Rightarrow> StakersOverview option reply"

datatype query =
    QErasValidatorReward int
  | QErasRewardPoints int
  | QValidators string
  | QErasValidatorPrefs int string
  | QErasStakersOverview int string

subsection \<open>The store\<close>

text \<open>The job a \<^verbatim>\<open>setTimeout\<close> of the store queues.\<close>

datatype task = CalculateLastEraAPY

text \<open>
  The values of the \<^verbatim>\<open>error\<close> field: \<^verbatim>\<open>error.message\<close> of a caught error,
  \<^verbatim>\<open>`calculation error for apy calcs: ${message}`\<close>,
  \<^verbatim>\<open>`something went wrong fetching the era data for ${era}`\<close> and
  \<^verbatim>\<open>`APY calc error for era ${era}`\<close>.
\<close>

datatype error_message =
    Message string
  | CalculationError string
  | EraDataError int
  | ApyCalcError int

text \<open>
  \<open>ValidatorState\<close> has the fields of the zustand store (\<^verbatim>\<open>currentEraReward\<close> and
  \<^verbatim>\<open>currentEraPoints\<close> prefixed with \<open>st_\<close>, as a validator record has fields of these names).
  Two more fields record the effects of an action outside the store: \<open>issued\<close>, the queries
  sent to the remote service so far, and \<open>timers\<close>, the jobs queued with \<^verbatim>\<open>setTimeout\<close>
  (delay in ms).
\<close>

record ValidatorState =
  currentPage :: int
  pageSize :: int
  totalValidators :: nat
  allValidators :: "ValidatorEntry list"
  filteredValidators :: "ValidatorEntry list"
  displayedValidators :: "Validator list"
  validatorCache :: "string \<rightharpoonup> Validator"
  prefetchSize :: nat
  activeEra :: int
  lastEra :: int
  st_currentEraReward :: int
  st_currentEraPoints :: "EraRewardPoints option"
  historicalEras :: "int list"
  historyLength :: nat
  maxHistoryLength :: nat
  selectedHistoricalValidator :: "string option"
  includeFullCommission :: bool
  includeBlockedNominations :: bool
  loading :: bool
  loadingPage :: bool
  loadingAPY :: bool
  loadingHistoricalData :: bool
  calculatingLastEraAPY :: bool
  lastEraAPYCalculated :: bool
  error :: "error_message option"
  issued :: "query list"
  timers :: "(nat \<times> task) list"

definition ask :: "query \<Rightarrow> ValidatorState \<Rightarrow> ValidatorState" where
  "ask q s = s\<lparr>issued := issued s @ [q]\<rparr>"

definition cachePut :: "string \<Rightarrow> Validator \<Rightarrow> ValidatorState \<Rightarrow> ValidatorState" where
  "cachePut a v s = s\<lparr>validatorCache := (validatorCache s)(a \<mapsto> v)\<rparr>"

section \<open>Page hydration: \<^verbatim>\<open>fetchValidatorPage\<close>\<close>

text \<open>
  The object literal built for a validator that was not in the cache (lines 793-814 and
  827-848): no history, \<^verbatim>\<open>averageCommission\<close> equal to the commission.
\<close>

definition newValidator ::
  "string \<Rightarrow> number \<Rightarrow> bool \<Rightarrow> int \<Rightarrow> int \<Rightarrow> number \<Rightarrow> number \<Rightarrow> int \<Rightarrow> Validator" where
  "newValidator a c b ts os apy pts rew =
     \<lparr>address = a, commission = c, blockedNominations = b, totalStake = ts, ownStake = os,
      lastEraAPY = apy,
      performance = \<lparr>currentEraPoints = pts, previousErasPoints = [], averagePoints = 0\<rparr>,
      rewards = \<lparr>currentEraReward = rew, previousErasRewards = [], apyByEra = [],
                 averageAPY = 0, activeOnlyAverageAPY = 0\<rparr>,
      historicalCommission = [], averageCommission = c\<rparr>"

text \<open>
  The share of an era reward computed with the fixed-point factor \<^verbatim>\<open>1_000_000n\<close>
  (lines 783-790 and 937-943): the ratio of the points is a \<^verbatim>\<open>number\<close>, scaled and floored,
  and the product and quotient are taken on bigints.
\<close>

definition fixedPointShare :: "int \<Rightarrow> number \<Rightarrow> number \<Rightarrow> int" where
  "fixedPointShare reward pts totalEraPoints =
     (let pointsRatio = js_div pts totalEraPoints;
          ratioFixed = BigInt_floor (js_mul pointsRatio 1000000)
      in bigint_div (ratioFixed * reward) 1000000)"

definition prefsCommissionValue :: "ValidatorPrefs option \<Rightarrow> number" where
  "prefsCommissionValue prefs = (case prefs of None \<Rightarrow> 0 | Some p \<Rightarrow> prefsCommission p)"

definition prefsBlocked :: "ValidatorPrefs option \<Rightarrow> bool" where
  "prefsBlocked prefs = (case prefs of None \<Rightarrow> False | Some p \<Rightarrow> blocked p)"

text \<open>
  One item of the page (lines 741-859). \<open>cache\<close>, \<open>era\<close> and \<open>eraPoints\<close> are the
  values of \<^verbatim>\<open>validatorCache\<close>, \<^verbatim>\<open>activeEra\<close> and \<^verbatim>\<open>currentEraPoints\<close> read when the action
  started; the writes go to the current state. A rejected preference query gives the
  default record of the \<^verbatim>\<open>catch\<close> block; a rejected stake query only leaves the stakes 0.
\<close>

definition hydrate ::
  "Remote \<Rightarrow> (string \<rightharpoonup> Validator) \<Rightarrow> int \<Rightarrow> EraRewardPoints option \<Rightarrow>
   ValidatorEntry \<Rightarrow> ValidatorState \<Rightarrow> Validator \<times> ValidatorState" where
  "hydrate api cache era eraPoints e s =
     (let a = entryAddress e; pts = entryPoints e in
      case cache a of
        Some cached \<Rightarrow>
          (case entryLastEraAPY e of
             None \<Rightarrow> (cached, s)
           | Some apy \<Rightarrow>
               if lastEraAPY cached \<noteq> apy
               then (let updatedValidator = cached\<lparr>lastEraAPY := apy\<rparr>
                     in (updatedValidator, cachePut a updatedValidator s))
               else (cached, s))
      | None \<Rightarrow>
          (let s1 = ask (QValidators a) s in
           case Validators api a of
             Rejects m \<Rightarrow>
               (let v = newValidator a 0 False 0 0 (or0 (entryLastEraAPY e)) pts 0
                in (v, cachePut a v s1))
           | Resolves prefs \<Rightarrow>
               (let c = js_div (prefsCommissionValue prefs) 1000000000;
                    b = prefsBlocked prefs;
                    s2 = ask (QErasStakersOverview era a) s1;
                    (ts, os) =
                      (case ErasStakersOverview api era a of
                         Resolves (Some ov) \<Rightarrow>
                           if overviewTotal ov > 0 then (overviewTotal ov, overviewOwn ov)
                           else (0, 0)
                       | _ \<Rightarrow> (0, 0));
                    validatorReward =
                      (case eraPoints of
                         Some ep \<Rightarrow>
                           if st_currentEraReward s2 \<noteq> 0 \<and> pts > 0 \<and> total_points ep > 0
                           then fixedPointShare (st_currentEraReward s2) pts (total_points ep)
                           else 0
                       | None \<Rightarrow> 0);
                    v = newValidator a c b ts os (or0 (entryLastEraAPY e)) pts validatorReward
                in (v, cachePut a v s2))))"

text \<open>
  \<^verbatim>\<open>fetchValidatorPage\<close> (lines 725-869). Nothing inside the \<^verbatim>\<open>try\<close> block throws (every
  remote call has its own \<^verbatim>\<open>catch\<close>), so the outer \<^verbatim>\<open>catch\<close> has no branch here.
\<close>

definition fetchValidatorPage :: "Remote \<Rightarrow> int \<Rightarrow> ValidatorState \<Rightarrow> ValidatorState" where
  "fetchValidatorPage api page s =
     (if filteredValidators s = [] then s
      else
        let cache = validatorCache s;
            s1 = s\<lparr>loadingPage := True, currentPage := page\<rparr>;
            startIdx = (page - 1) * pageSize s;
            pageValidators = js_slice (filteredValidators s) startIdx (startIdx + pageSize s);
            (detailedValidators, s2) =
              fold (\<lambda>batch (acc, t).
                      let (batchResults, t1) =
                            runItems (hydrate api cache (activeEra s) (st_currentEraPoints s)) batch t
                      in (acc @ batchResults, t1))
                   (batches 10 pageValidators) ([], s1)
        in s2\<lparr>displayedValidators := detailedValidators, loadingPage := False\<rparr>)"

text \<open>\<^verbatim>\<open>setPageSize\<close> (lines 107-110).\<close>

definition setPageSize :: "Remote \<Rightarrow> int \<Rightarrow> ValidatorState \<Rightarrow> ValidatorState" where
  "setPageSize api n s = fetchValidatorPage api 1 (s\<lparr>pageSize := n\<rparr>)"


section \<open>Filtering: \<^verbatim>\<open>applyFilters\<close> and \<^verbatim>\<open>setFilterOptions\<close>\<close>

text \<open>
  One item of the membership check (lines 256-293): \<open>None\<close> is the \<^verbatim>\<open>null\<close> of an excluded
  validator. A rejected preference query keeps the validator, with \<^verbatim>\<open>lastEraAPY\<close> 0.
\<close>

definition checkMembership ::
  "Remote \<Rightarrow> (string \<rightharpoonup> Validator) \<Rightarrow> bool \<Rightarrow> bool \<Rightarrow>
   ValidatorEntry \<Rightarrow> ValidatorState \<Rightarrow> ValidatorEntry option \<times> ValidatorState" where
  "checkMembership api cache incF incB e s =
     (let a = entryAddress e; pts = entryPoints e in
      case cache a of
        Some cached \<Rightarrow>
          if \<not> incF \<and> commission cached \<ge> 1 then (None, s)
          else if \<not> incB \<and> blockedNominations cached then (None, s)
          else (Some \<lparr>entryAddress = a, entryPoints = pts,
                       entryLastEraAPY = Some (lastEraAPY cached)\<rparr>, s)
      | None \<Rightarrow>
          (let s1 = ask (QValidators a) s in
           case Validators api a of
             Rejects m \<Rightarrow>
               (Some \<lparr>entryAddress = a, entryPoints = pts, entryLastEraAPY = Some 0\<rparr>, s1)
           | Resolves prefs \<Rightarrow>
               (let c = js_div (prefsCommissionValue prefs) 1000000000;
                    b = prefsBlocked prefs
                in if \<not> incF \<and> c \<ge> 1 then (None, s1)
                   else if \<not> incB \<and> b then (None, s1)
                   else (Some \<lparr>entryAddress = a, entryPoints = pts,
                                entryLastEraAPY = Some 0\<rparr>, s1))))"

text \<open>\<^verbatim>\<open>validatorCache[v.address]?.lastEraAPY || 0\<close>, the sort key of lines 302-306.\<close>

definition cachedAPY :: "(string \<rightharpoonup> Validator) \<Rightarrow> ValidatorEntry \<Rightarrow> number" where
  "cachedAPY cache e = (case cache (entryAddress e) of None \<Rightarrow> 0 | Some v \<Rightarrow> lastEraAPY v)"

definition notCached :: "(string \<rightharpoonup> Validator) \<Rightarrow> ValidatorEntry \<Rightarrow> bool" where
  "notCached cache e = (case cache (entryAddress e) of None \<Rightarrow> True | Some v \<Rightarrow> False)"

text \<open>
  \<^verbatim>\<open>applyFilters\<close> (lines 233-337). \<^verbatim>\<open>Array.prototype.sort\<close> is stable, and the comparator
  \<^verbatim>\<open>bApy - aApy\<close> orders by descending APY: a stable sort on the negated key. The items
  catch their own errors, so the outer \<^verbatim>\<open>catch\<close> has no branch here. The last step queues
  the bulk APY job with \<^verbatim>\<open>setTimeout(..., 500)\<close>.
\<close>

definition applyFilters :: "Remote \<Rightarrow> ValidatorState \<Rightarrow> ValidatorState" where
  "applyFilters api s =
     (let cache = validatorCache s;
          incF = includeFullCommission s;
          incB = includeBlockedNominations s;
          s1 = s\<lparr>loadingPage := True\<rparr>;
          (filteredResults, s2) =
            (if incF \<and> incB then (allValidators s, s1)
             else
               fold (\<lambda>batch (acc, t).
                       let (batchResults, t1) =
                             runItems (checkMembership api cache incF incB) batch t
                       in (acc @ List.map_filter id batchResults, t1))
                    (batches 50 (allValidators s)) ([], s1));
          sorted =
            (if lastEraAPYCalculated s
             then sort_key (\<lambda>e. - cachedAPY cache e) filteredResults
             else filteredResults);
          s3 = s2\<lparr>filteredValidators := sorted, totalValidators := length sorted,
                  loadingPage := False\<rparr>;
          newValidatorsWithoutAPY = list_ex (notCached cache) sorted
      in if newValidatorsWithoutAPY \<and> \<not> calculatingLastEraAPY s3
         then s3\<lparr>timers := timers s3 @ [(500, CalculateLastEraAPY)]\<rparr>
         else s3)"

text \<open>
  \<^verbatim>\<open>setFilterOptions\<close> (lines 215-227), with the refiltering and the page fetch it chains
  (\<^verbatim>\<open>applyFilters().then(() => fetchValidatorPage(1))\<close>) run to completion.
\<close>

definition withFilterOptions ::
  "bool option \<Rightarrow> bool option \<Rightarrow> ValidatorState \<Rightarrow> ValidatorState" where
  "withFilterOptions optFull optBlocked s =
     s\<lparr>includeFullCommission :=
         (case optFull of Some v \<Rightarrow> v | None \<Rightarrow> includeFullCommission s),
       includeBlockedNominations :=
         (case optBlocked of Some v \<Rightarrow> v | None \<Rightarrow> includeBlockedNominations s)\<rparr>"

definition setFilterOptions ::
  "Remote \<Rightarrow> bool option \<Rightarrow> bool option \<Rightarrow> ValidatorState \<Rightarrow> ValidatorState" where
  "setFilterOptions api optFull optBlocked s =
     fetchValidatorPage api 1 (applyFilters api (withFilterOptions optFull optBlocked s))"

section \<open>The APY formula\<close>

text \<open>
  Lines 500-508 of \<^verbatim>\<open>calculateLastEraAPYForAllValidators\<close> and 1087-1096 of
  \<^verbatim>\<open>calculateValidatorAPY\<close>, the same statements in both:
  \<^verbatim>\<open>
  const pointsRatio = validatorPoints / totalEraPoints;
  const validatorReward = BigInt(Math.floor(Number(eraReward) * pointsRatio));
  const commissionPart = BigInt(Math.floor(commission * 1_000_000_000));
  const nominatorRatio = 1_000_000_000n - commissionPart;
  const nominatorReward = (validatorReward * nominatorRatio) / 1_000_000_000n;
  const eraReturnRate = Number(nominatorReward) / Number(totalStake);
  apy = eraReturnRate * 365.25 * 100;
  \<close>
\<close>

definition validatorRewardOf :: "int \<Rightarrow> number \<Rightarrow> number \<Rightarrow> int" where
  "validatorRewardOf eraReward validatorPoints totalEraPoints =
     (let pointsRatio = js_div validatorPoints totalEraPoints
      in BigInt_floor (js_mul (Number eraReward) pointsRatio))"

definition nominatorRewardOf :: "int \<Rightarrow> number \<Rightarrow> int" where
  "nominatorRewardOf validatorReward c =
     (let commissionPart = BigInt_floor (js_mul c 1000000000);
          nominatorRatio = 1000000000 - commissionPart
      in bigint_div (validatorReward * nominatorRatio) 1000000000)"

definition annualize :: "int \<Rightarrow> int \<Rightarrow> number" where
  "annualize nominatorReward stake =
     (let eraReturnRate = js_div (Number nominatorReward) (Number stake)
      in js_mul (js_mul eraReturnRate (1461 / 4)) 100)"

definition eraAPY :: "int \<Rightarrow> number \<Rightarrow> number \<Rightarrow> number \<Rightarrow> int \<Rightarrow> number" where
  "eraAPY eraReward validatorPoints totalEraPoints c stake =
     annualize (nominatorRewardOf (validatorRewardOf eraReward validatorPoints totalEraPoints) c)
       stake"

section \<open>Last-era APY of all validators\<close>

text \<open>
  \<^verbatim>\<open>individualPoints[address] || 0\<close>, where \<^verbatim>\<open>individualPoints\<close> is filled by a \<^verbatim>\<open>forEach\<close>
  over the pairs (lines 436-446): a later pair overwrites an earlier one.
\<close>

definition lookupLast :: "(string \<times> number) list \<Rightarrow> string \<Rightarrow> number" where
  "lookupLast ps a = or0 (map_of (rev ps) a)"

text \<open>
  The part of an item after the cache shortcut (lines 469-538). The result is
  \<^verbatim>\<open>{address, lastEraAPY, validatorInstance}\<close>; \<open>entries\<close> is \<^verbatim>\<open>newCacheEntries\<close>, shared
  by all items.
\<close>

definition computeLastEraAPY ::
  "Remote \<Rightarrow> int \<Rightarrow> int \<Rightarrow> number \<Rightarrow> (string \<times> number) list \<Rightarrow> string \<Rightarrow>
   Validator option \<Rightarrow> (string \<times> Validator) list \<times> ValidatorState \<Rightarrow>
   (string \<times> number \<times> Validator option) \<times> (string \<times> Validator) list \<times> ValidatorState" where
  "computeLastEraAPY api era eraReward totalEraPoints points a existingValidator st =
     (let (entries, s) = st;
          validatorPoints = lookupLast points a;
          s1 = ask (QErasValidatorPrefs era a) s in
      case ErasValidatorPrefs api era a of
        Rejects m \<Rightarrow> ((a, 0, None), (entries, s1))
      | Resolves prefs \<Rightarrow>
          (let c = js_div (prefsCommissionValue prefs) 1000000000;
               b = prefsBlocked prefs;
               s2 = ask (QErasStakersOverview era a) s1;
               noStake =
                 ((a, 0, map_option (\<lambda>ex. ex\<lparr>lastEraAPY := 0\<rparr>) existingValidator),
                  (entries, s2)) in
           case ErasStakersOverview api era a of
             Rejects m \<Rightarrow> ((a, 0, None), (entries, s2))
           | Resolves None \<Rightarrow> noStake
           | Resolves (Some ov) \<Rightarrow>
               if overviewTotal ov = 0 then noStake
               else
                 (let apy =
                        (if validatorPoints > 0
                         then eraAPY eraReward validatorPoints totalEraPoints c (overviewTotal ov)
                         else 0) in
                  case existingValidator of
                    Some ex \<Rightarrow>
                      (let updatedValidator =
                             ex\<lparr>lastEraAPY := apy, commission := c, blockedNominations := b\<rparr>
                       in ((a, apy, Some updatedValidator),
                           (AList.update a updatedValidator entries, s2)))
                  | None \<Rightarrow> ((a, apy, None), (entries, s2)))))"

text \<open>One item (lines 456-539): a cached validator with a positive APY is not recomputed.\<close>

definition lastEraItem ::
  "Remote \<Rightarrow> (string \<rightharpoonup> Validator) \<Rightarrow> int \<Rightarrow> int \<Rightarrow> number \<Rightarrow> (string \<times> number) list \<Rightarrow>
   ValidatorEntry \<Rightarrow> (string \<times> Validator) list \<times> ValidatorState \<Rightarrow>
   (string \<times> number \<times> Validator option) \<times> (string \<times> Validator) list \<times> ValidatorState" where
  "lastEraItem api cache era eraReward totalEraPoints points e st =
     (let a = entryAddress e in
      case cache a of
        Some ex \<Rightarrow>
          if lastEraAPY ex > 0 then ((a, lastEraAPY ex, Some ex), st)
          else computeLastEraAPY api era eraReward totalEraPoints points a (Some ex) st
      | None \<Rightarrow> computeLastEraAPY api era eraReward totalEraPoints points a None st)"

text \<open>
  One batch (lines 454-557): the items, then the \<^verbatim>\<open>forEach\<close> over their results, then the
  merge of \<^verbatim>\<open>newCacheEntries\<close> into the cache of the current state.
\<close>

definition lastEraBatch ::
  "Remote \<Rightarrow> (string \<rightharpoonup> Validator) \<Rightarrow> int \<Rightarrow> int \<Rightarrow> number \<Rightarrow> (string \<times> number) list \<Rightarrow>
   ValidatorEntry list \<Rightarrow>
   (string \<times> number) list \<times> (string \<times> Validator) list \<times> ValidatorState \<Rightarrow>
   (string \<times> number) list \<times> (string \<times> Validator) list \<times> ValidatorState" where
  "lastEraBatch api cache era eraReward totalEraPoints points batch acc =
     (let (validatorsWithAPY, entries, s) = acc;
          (batchResults, entries1, s1) =
            runItems (lastEraItem api cache era eraReward totalEraPoints points) batch (entries, s);
          validatorsWithAPY1 = validatorsWithAPY @ map (\<lambda>(a, apy, inst). (a, apy)) batchResults;
          entries2 =
            fold (\<lambda>(a, apy, inst) m. case inst of Some v \<Rightarrow> AList.update a v m | None \<Rightarrow> m)
              batchResults entries1;
          s2 = (case entries2 of
                  [] \<Rightarrow> s1
                | _ # _ \<Rightarrow> s1\<lparr>validatorCache := validatorCache s1 ++ map_of entries2\<rparr>)
      in (validatorsWithAPY1, entries2, s2))"

text \<open>
  \<^verbatim>\<open>calculateLastEraAPYForAllValidators\<close> (lines 416-595). The two queries before the loop
  are not caught by an inner \<^verbatim>\<open>try\<close>: their rejection reaches the outer \<^verbatim>\<open>catch\<close>.
\<close>

definition calculateLastEraAPYForAllValidators :: "Remote \<Rightarrow> ValidatorState \<Rightarrow> ValidatorState" where
  "calculateLastEraAPYForAllValidators api s =
     (let cache = validatorCache s;
          era = lastEra s;
          s1 = s\<lparr>calculatingLastEraAPY := True, lastEraAPYCalculated := False\<rparr>;
          s2 = ask (QErasValidatorReward era) s1 in
      case ErasValidatorReward api era of
        Rejects m \<Rightarrow> s2\<lparr>calculatingLastEraAPY := False, error := Some (CalculationError m)\<rparr>
      | Resolves None \<Rightarrow> s2\<lparr>calculatingLastEraAPY := False\<rparr>
      | Resolves (Some eraReward) \<Rightarrow>
          if eraReward = 0 then s2\<lparr>calculatingLastEraAPY := False\<rparr>
          else
            (let s3 = ask (QErasRewardPoints era) s2 in
             case ErasRewardPoints api era of
               Rejects m \<Rightarrow>
                 s3\<lparr>calculatingLastEraAPY := False, error := Some (CalculationError m)\<rparr>
             | Resolves None \<Rightarrow> s3\<lparr>calculatingLastEraAPY := False\<rparr>
             | Resolves (Some eraPoints) \<Rightarrow>
                 if total_points eraPoints = 0 then s3\<lparr>calculatingLastEraAPY := False\<rparr>
                 else
                   (let (validatorsWithAPY, entries, s4) =
                          fold (lastEraBatch api cache era eraReward (total_points eraPoints)
                                  (individual eraPoints))
                            (batches 25 (allValidators s)) ([], [], s3);
                        apyMap = (\<lambda>a. lookupLast validatorsWithAPY a);
                        updatedFiltered =
                          sort_key (\<lambda>v. - or0 (entryLastEraAPY v))
                            (map (\<lambda>v. v\<lparr>entryLastEraAPY := Some (apyMap (entryAddress v))\<rparr>)
                               (filteredValidators s4));
                        updatedDisplayed =
                          map (\<lambda>v. v\<lparr>lastEraAPY := apyMap (address v)\<rparr>) (displayedValidators s4);
                        s5 = s4\<lparr>filteredValidators := updatedFiltered,
                                displayedValidators := updatedDisplayed,
                                lastEraAPYCalculated := True,
                                calculatingLastEraAPY := False\<rparr>
                    in fetchValidatorPage api 1 s5)))"

section \<open>Historical performance of one validator\<close>

text \<open>
  The accumulators of \<^verbatim>\<open>fetchHistoricalPerformance\<close>: \<^verbatim>\<open>validatorPerformance\<close>,
  \<^verbatim>\<open>validatorRewards\<close> and \<^verbatim>\<open>validatorCommissions\<close> (lines 907-909).
\<close>

record Fetched =
  validatorPerformance :: "number era_record"
  validatorRewards :: "int era_record"
  validatorCommissions :: "number era_record"

text \<open>
  Lines 922-948: the first pair of \<^verbatim>\<open>individual\<close> with the validator's address gives its
  points, and its reward when the era has a reward and a positive total.
\<close>

definition recordPoints ::
  "string \<Rightarrow> int \<Rightarrow> EraRewardPoints option \<Rightarrow> int option \<Rightarrow> Fetched \<Rightarrow> Fetched" where
  "recordPoints a era eraPoints eraReward acc =
     (case eraPoints of
        None \<Rightarrow> acc
      | Some ep \<Rightarrow>
          (case map_of (individual ep) a of
             None \<Rightarrow> acc
           | Some validatorPoints \<Rightarrow>
               (let acc1 = acc\<lparr>validatorPerformance :=
                                  AList.update era validatorPoints (validatorPerformance acc)\<rparr>
                in case eraReward of
                     None \<Rightarrow> acc1
                   | Some r \<Rightarrow>
                       if r \<noteq> 0 \<and> total_points ep > 0
                       then acc1\<lparr>validatorRewards :=
                                   AList.update era
                                     (fixedPointShare r validatorPoints (total_points ep))
                                     (validatorRewards acc1)\<rparr>
                       else acc1)))"

text \<open>
  Lines 949-956: the commission of the era, recorded when the query resolves to
  preferences with a non-zero commission; its rejection is swallowed.
\<close>

definition recordCommission ::
  "Remote \<Rightarrow> string \<Rightarrow> int \<Rightarrow> Fetched \<times> ValidatorState \<Rightarrow> Fetched \<times> ValidatorState" where
  "recordCommission api a era st =
     (let (acc, s) = st; s1 = ask (QErasValidatorPrefs era a) s in
      case ErasValidatorPrefs api era a of
        Resolves (Some prefs) \<Rightarrow>
          if prefsCommission prefs \<noteq> 0
          then (acc\<lparr>validatorCommissions :=
                      AList.update era (js_div (prefsCommission prefs) 1000000000)
                        (validatorCommissions acc)\<rparr>, s1)
          else (acc, s1)
      | _ \<Rightarrow> (acc, s1))"

text \<open>One era (lines 916-960).\<close>

definition historicalItem ::
  "Remote \<Rightarrow> string \<Rightarrow> int \<Rightarrow> Fetched \<times> ValidatorState \<Rightarrow> unit \<times> Fetched \<times> ValidatorState" where
  "historicalItem api a era st =
     (let (acc, s) = st; s1 = ask (QErasRewardPoints era) s in
      case ErasRewardPoints api era of
        Rejects m \<Rightarrow> ((), acc, s1\<lparr>error := Some (EraDataError era)\<rparr>)
      | Resolves eraPoints \<Rightarrow>
          (let s2 = ask (QErasValidatorReward era) s1 in
           case ErasValidatorReward api era of
             Rejects m \<Rightarrow> ((), acc, s2\<lparr>error := Some (EraDataError era)\<rparr>)
           | Resolves eraReward \<Rightarrow>
               ((), recordCommission api a era (recordPoints a era eraPoints eraReward acc, s2))))"

text \<open>The defined values of an era-keyed object at the given eras, in their order.\<close>

definition definedAt :: "'a era_record \<Rightarrow> int list \<Rightarrow> 'a list" where
  "definedAt m eras = List.map_filter (map_of m) eras"

text \<open>\<^verbatim>\<open>xs.length > 0 ? xs.reduce((a, b) => a + b, 0) / xs.length : d\<close>.\<close>

definition averageOr :: "number \<Rightarrow> number list \<Rightarrow> number" where
  "averageOr d xs = (if xs = [] then d else js_div (js_sum xs) (of_nat (length xs)))"

text \<open>
  \<^verbatim>\<open>Array.from({ length: historyLength }, (_, i) => activeEra - i - 1).filter(era => era >= 0)\<close>.
\<close>

definition erasBack :: "int \<Rightarrow> nat \<Rightarrow> int list" where
  "erasBack era n = filter (\<lambda>e. e \<ge> 0) (map (\<lambda>i. era - int i - 1) [0..<n])"

text \<open>
  The record written back (lines 985-1001): the three history maps are the freshly
  fetched accumulators; \<^verbatim>\<open>apyByEra\<close> and the APY averages are kept.
\<close>

definition withHistory :: "Validator \<Rightarrow> Fetched \<Rightarrow> int list \<Rightarrow> Validator" where
  "withHistory validator acc eras =
     validator\<lparr>
       performance := (performance validator)\<lparr>
         previousErasPoints := validatorPerformance acc,
         averagePoints := averageOr 0 (definedAt (validatorPerformance acc) eras)\<rparr>,
       rewards := (rewards validator)\<lparr>previousErasRewards := validatorRewards acc\<rparr>,
       historicalCommission := validatorCommissions acc,
       averageCommission :=
         averageOr (commission validator) (definedAt (validatorCommissions acc) eras)\<rparr>"

text \<open>
  \<^verbatim>\<open>fetchHistoricalPerformance\<close> (lines 875-1023). Every remote call is inside the per-era
  \<^verbatim>\<open>try\<close>, so the outer \<^verbatim>\<open>catch\<close> has no branch here.
\<close>

definition fetchHistoricalPerformance ::
  "Remote \<Rightarrow> string \<Rightarrow> bool \<Rightarrow> ValidatorState \<Rightarrow> ValidatorState" where
  "fetchHistoricalPerformance api a forceRefresh s =
     (if a = [] then s
      else
        let eras = erasBack (activeEra s) (historyLength s);
            s1 = s\<lparr>loadingHistoricalData := True, historicalEras := eras\<rparr> in
        case (case validatorCache s a of
                Some v \<Rightarrow> Some v
              | None \<Rightarrow> List.find (\<lambda>v. address v = a) (displayedValidators s)) of
          None \<Rightarrow> s1\<lparr>loadingHistoricalData := False\<rparr>
        | Some validator \<Rightarrow>
            if \<not> forceRefresh \<and>
               length (previousErasPoints (performance validator)) \<ge> length eras
            then s1\<lparr>loadingHistoricalData := False\<rparr>
            else
              (let (acc, s2) =
                     fold (\<lambda>batch t. snd (runItems (historicalItem api a) batch t))
                       (batches 5 eras)
                       (\<lparr>validatorPerformance = [], validatorRewards = [],
                         validatorCommissions = []\<rparr>, s1);
                   updatedValidator = withHistory validator acc eras;
                   s3 = cachePut a updatedValidator s2
               in s3\<lparr>displayedValidators :=
                        map (\<lambda>v. if address v = a then updatedValidator else v)
                          (displayedValidators s),
                      loadingHistoricalData := False\<rparr>))"

section \<open>Historical APY of one validator\<close>

text \<open>
  One era of \<^verbatim>\<open>calculateValidatorAPY\<close> (lines 1045-1102); \<open>acc\<close> is the local \<^verbatim>\<open>apyByEra\<close>.
  An era without reward, without the validator's points, without total points or without
  stake returns before \<^verbatim>\<open>apyByEra[era] = apy\<close>.
\<close>

definition apyItem ::
  "Remote \<Rightarrow> string \<Rightarrow> Validator \<Rightarrow> int \<Rightarrow> number era_record \<times> ValidatorState \<Rightarrow>
   unit \<times> number era_record \<times> ValidatorState" where
  "apyItem api a validator era st =
     (let (acc, s) = st; s1 = ask (QErasValidatorReward era) s in
      case ErasValidatorReward api era of
        Rejects m \<Rightarrow> ((), acc, s1\<lparr>error := Some (ApyCalcError era)\<rparr>)
      | Resolves None \<Rightarrow> ((), acc, s1)
      | Resolves (Some eraReward) \<Rightarrow>
          if eraReward = 0 then ((), acc, s1)
          else
            (let s2 = ask (QErasRewardPoints era) s1 in
             case ErasRewardPoints api era of
               Rejects m \<Rightarrow> ((), acc, s2\<lparr>error := Some (ApyCalcError era)\<rparr>)
             | Resolves None \<Rightarrow> ((), acc, s2)
             | Resolves (Some eraPoints) \<Rightarrow>
                 (let validatorPoints = or0 (map_of (individual eraPoints) a) in
                  if validatorPoints = 0 \<or> total_points eraPoints = 0 then ((), acc, s2)
                  else
                    (let c = (case map_of (historicalCommission validator) era of
                                Some h \<Rightarrow> if h \<noteq> 0 then h else commission validator
                              | None \<Rightarrow> commission validator);
                         s3 = ask (QErasStakersOverview era a) s2 in
                     case ErasStakersOverview api era a of
                       Rejects m \<Rightarrow> ((), acc, s3\<lparr>error := Some (ApyCalcError era)\<rparr>)
                     | Resolves None \<Rightarrow> ((), acc, s3)
                     | Resolves (Some ov) \<Rightarrow>
                         if overviewTotal ov = 0 then ((), acc, s3)
                         else
                           ((), AList.update era
                                  (eraAPY eraReward validatorPoints (total_points eraPoints) c
                                     (overviewTotal ov)) acc,
                            s3)))))"

text \<open>
  \<^verbatim>\<open>calculateAverages\<close> (lines 116-183): the averages over \<^verbatim>\<open>historicalEras\<close>. An era counts
  for the points when its points are positive, for the commission when moreover its
  commission is known, and for the APY when \<^verbatim>\<open>apyByEra[era]\<close> is truthy (present and not 0).
\<close>

definition activePoints :: "Validator \<Rightarrow> int list \<Rightarrow> number list" where
  "activePoints v eras =
     filter (\<lambda>p. p > 0) (definedAt (previousErasPoints (performance v)) eras)"

definition activeCommissions :: "Validator \<Rightarrow> int list \<Rightarrow> number list" where
  "activeCommissions v eras =
     definedAt (historicalCommission v)
       (filter (\<lambda>era. case map_of (previousErasPoints (performance v)) era of
                        Some p \<Rightarrow> p > 0 | None \<Rightarrow> False) eras)"

definition truthyAPYs :: "Validator \<Rightarrow> int list \<Rightarrow> number list" where
  "truthyAPYs v eras = filter (\<lambda>x. x \<noteq> 0) (definedAt (apyByEra (rewards v)) eras)"

definition withAverages :: "Validator \<Rightarrow> int list \<Rightarrow> Validator \<Rightarrow> Validator" where
  "withAverages validator eras v =
     v\<lparr>performance :=
         (performance v)\<lparr>averagePoints := averageOr 0 (activePoints validator eras)\<rparr>,
       rewards := (rewards v)\<lparr>averageAPY := averageOr 0 (truthyAPYs validator eras)\<rparr>,
       averageCommission :=
         averageOr (commission validator) (activeCommissions validator eras)\<rparr>"

definition calculateAverages :: "string \<Rightarrow> ValidatorState \<Rightarrow> ValidatorState" where
  "calculateAverages a s =
     (case List.find (\<lambda>v. address v = a) (displayedValidators s) of
        None \<Rightarrow> s
      | Some validator \<Rightarrow>
          (let updatedValidators =
                 map (\<lambda>v. if address v = a then withAverages validator (historicalEras s) v
                          else v)
                   (displayedValidators s);
               s1 = s\<lparr>displayedValidators := updatedValidators\<rparr>
           in case List.find (\<lambda>v. address v = a) updatedValidators of
                None \<Rightarrow> s1
              | Some u \<Rightarrow> cachePut a u s1))"

text \<open>The two averages of lines 1106-1115, over \<^verbatim>\<open>Object.values(apyByEra)\<close>.\<close>

definition allErasAverage :: "number era_record \<Rightarrow> number" where
  "allErasAverage m = averageOr 0 (Object_values m)"

definition activeErasAverage :: "number era_record \<Rightarrow> number" where
  "activeErasAverage m = averageOr 0 (filter (\<lambda>apy. apy > 0) (Object_values m))"

definition withAPY :: "Validator \<Rightarrow> number era_record \<Rightarrow> Validator" where
  "withAPY v m =
     v\<lparr>rewards := (rewards v)\<lparr>apyByEra := m, averageAPY := allErasAverage m,
                                activeOnlyAverageAPY := activeErasAverage m\<rparr>\<rparr>"

text \<open>
  \<^verbatim>\<open>calculateValidatorAPY\<close> (lines 1029-1158); its last statement calls
  \<^verbatim>\<open>calculateAverages\<close>.
\<close>

definition calculateValidatorAPY :: "Remote \<Rightarrow> string \<Rightarrow> ValidatorState \<Rightarrow> ValidatorState" where
  "calculateValidatorAPY api a s =
     (case (case List.find (\<lambda>v. address v = a) (displayedValidators s) of
              Some v \<Rightarrow> Some v
            | None \<Rightarrow> validatorCache s a) of
        None \<Rightarrow> s
      | Some validator \<Rightarrow>
          (let s1 = s\<lparr>loadingAPY := True\<rparr>;
               (m, s2) =
                 fold (\<lambda>batch t. snd (runItems (apyItem api a validator) batch t))
                   (batches 3 (historicalEras s)) ([], s1);
               updatedValidators =
                 map (\<lambda>v. if address v = a then withAPY v m else v) (displayedValidators s);
               s3 = (cachePut a (withAPY validator m) s2)
                      \<lparr>displayedValidators := updatedValidators, loadingAPY := False\<rparr>
           in calculateAverages a s3))"

section \<open>Selecting a validator and a history length\<close>

text \<open>\<^verbatim>\<open>setSelectedHistoricalValidator\<close> (lines 205-212), run to completion.\<close>

definition setSelectedHistoricalValidator ::
  "Remote \<Rightarrow> string option \<Rightarrow> ValidatorState \<Rightarrow> ValidatorState" where
  "setSelectedHistoricalValidator api selected s =
     (let s1 = s\<lparr>selectedHistoricalValidator := selected\<rparr> in
      case selected of
        None \<Rightarrow> s1
      | Some a \<Rightarrow>
          if a = [] then s1
          else calculateValidatorAPY api a (fetchHistoricalPerformance api a False s1))"

text \<open>
  \<^verbatim>\<open>setHistoryLength\<close> (lines 189-199), run to completion: the length is clamped to
  \<^verbatim>\<open>[1, maxHistoryLength]\<close>, and the history of the selected validator is fetched again,
  forced.
\<close>

definition setHistoryLength :: "Remote \<Rightarrow> int \<Rightarrow> ValidatorState \<Rightarrow> ValidatorState" where
  "setHistoryLength api n s =
     (let newLength = max 1 (min n (int (maxHistoryLength s)));
          s1 = s\<lparr>historyLength := nat newLength\<rparr> in
      case selectedHistoricalValidator s1 of
        None \<Rightarrow> s1
      | Some a \<Rightarrow>
          if a = [] then s1
          else calculateValidatorAPY api a (fetchHistoricalPerformance api a True s1))"

section \<open>The initial store\<close>

text \<open>Lines 80-104; nothing has been sent to the remote service, no timer is pending.\<close>

definition initialState :: ValidatorState where
  "initialState =
     \<lparr>currentPage = 1, pageSize = 10, totalValidators = 0, allValidators = [],
      filteredValidators = [], displayedValidators = [], validatorCache = Map.empty,
      prefetchSize = 100, activeEra = 0, lastEra = 0, st_currentEraReward = 0,
      st_currentEraPoints = None, historicalEras = [], historyLength = 20,
      maxHistoryLength = 84, selectedHistoricalValidator = None,
      includeFullCommission = False, includeBlockedNominations = False, loading = False,
      loadingPage = False, loadingAPY = False, loadingHistoricalData = False,
      calculatingLastEraAPY = False, lastEraAPYCalculated = False, error = None,
      issued = [], timers = []\<rparr>"

section \<open>Auxiliary definitions for the properties\<close>

text \<open>A remote service none of whose queries succeeds.\<close>

definition offlineRemote :: Remote where
  "offlineRemote =
     \<lparr>ErasValidatorReward = (\<lambda>era. Rejects ''offline''),
      ErasRewardPoints = (\<lambda>era. Rejects ''offline''),
      Validators = (\<lambda>a. Rejects ''offline''),
      ErasValidatorPrefs = (\<lambda>era a. Rejects ''offline''),
      ErasStakersOverview = (\<lambda>era a. Rejects ''offline'')\<rparr>"

text \<open>\<open>t\<close> differs from \<open>s\<close> at most in the validator cache and in the queries issued.\<close>

definition onlyCacheAndLog :: "ValidatorState \<Rightarrow> ValidatorState \<Rightarrow> bool" where
  "onlyCacheAndLog s t = (t = s\<lparr>validatorCache := validatorCache t, issued := issued t\<rparr>)"

text \<open>The entries \<^verbatim>\<open>applyFilters\<close> retains, before it sorts them, and the state then.\<close>

definition retained :: "Remote \<Rightarrow> ValidatorState \<Rightarrow> ValidatorEntry list \<times> ValidatorState" where
  "retained api s =
     (if includeFullCommission s \<and> includeBlockedNominations s
      then (allValidators s, s\<lparr>loadingPage := True\<rparr>)
      else case runItems (checkMembership api (validatorCache s) (includeFullCommission s)
                   (includeBlockedNominations s)) (allValidators s) (s\<lparr>loadingPage := True\<rparr>) of
             (rs, t) \<Rightarrow> (List.map_filter id rs, t))"

text \<open>
  A store with one validator, cached with a commission of 100%, and both filters set to
  include everything.
\<close>

definition soleFullCommission :: ValidatorState where
  "soleFullCommission =
     initialState\<lparr>
       allValidators := [\<lparr>entryAddress = ''A'', entryPoints = 7, entryLastEraAPY = None\<rparr>],
       validatorCache := [''A'' \<mapsto> newValidator ''A'' 1 False 0 0 0 7 0],
       includeFullCommission := True,
       includeBlockedNominations := True\<rparr>"

text \<open>
  The commission and the blocked flag the membership check of \<^verbatim>\<open>applyFilters\<close> knows for an
  address: those of the cached record when there is one, else those the preference query
  resolves to; a rejected or empty answer counts as commission 0 and not blocked.
\<close>

definition knownCommission :: "Remote \<Rightarrow> (string \<rightharpoonup> Validator) \<Rightarrow> string \<Rightarrow> number" where
  "knownCommission api cache a =
     (case cache a of
        Some v \<Rightarrow> commission v
      | None \<Rightarrow>
          (case Validators api a of
             Resolves (Some p) \<Rightarrow> js_div (prefsCommission p) 1000000000
           | _ \<Rightarrow> 0))"

definition knownBlocked :: "Remote \<Rightarrow> (string \<rightharpoonup> Validator) \<Rightarrow> string \<Rightarrow> bool" where
  "knownBlocked api cache a =
     (case cache a of
        Some v \<Rightarrow> blockedNominations v
      | None \<Rightarrow>
          (case Validators api a of
             Resolves (Some p) \<Rightarrow> blocked p
           | _ \<Rightarrow> False))"

definition passesFilters :: "Remote \<Rightarrow> ValidatorState \<Rightarrow> string \<Rightarrow> bool" where
  "passesFilters api s a =
     ((includeFullCommission s \<or> knownCommission api (validatorCache s) a < 1) \<and>
      (includeBlockedNominations s \<or> \<not> knownBlocked api (validatorCache s) a))"





text \<open>
  A remote service with one validator \<open>A\<close> of stake 100. In era 0 it has no points; in era
  1 its commission is 100%; the reward of era 2 is 200, that of the other eras 400.
\<close>

definition sampleRemote :: Remote where
  "sampleRemote =
     \<lparr>ErasValidatorReward = (\<lambda>era. Resolves (Some (if era = 2 then 200 else 400))),
      ErasRewardPoints =
        (\<lambda>era. Resolves (Some \<lparr>total_points = 10,
                                individual = (if era = 0 then [(''B'', 10)] else [(''A'', 10)])\<rparr>)),
      Validators = (\<lambda>a. Resolves (Some \<lparr>prefsCommission = 0, blocked = False\<rparr>)),
      ErasValidatorPrefs =
        (\<lambda>era a. Resolves (Some \<lparr>prefsCommission = (if era = 1 then 1000000000 else 0),
                                  blocked = False\<rparr>)),
      ErasStakersOverview =
        (\<lambda>era a. Resolves (Some \<lparr>overviewTotal = 100, overviewOwn = 10\<rparr>))\<rparr>"

text \<open>
  A store in era 4 that shows the validator \<open>A\<close> on its page, with a history of four eras.
\<close>

definition showingA :: ValidatorState where
  "showingA =
     initialState\<lparr>
       allValidators := [\<lparr>entryAddress = ''A'', entryPoints = 10, entryLastEraAPY = None\<rparr>],
       filteredValidators :=
         [\<lparr>entryAddress = ''A'', entryPoints = 10, entryLastEraAPY = Some 0\<rparr>],
       totalValidators := 1,
       displayedValidators := [newValidator ''A'' 0 False 100 10 0 10 0],
       validatorCache := [''A'' \<mapsto> newValidator ''A'' 0 False 100 10 0 10 0],
       activeEra := 4, lastEra := 3, historyLength := 4\<rparr>"

text \<open>
  What one era of \<^verbatim>\<open>fetchHistoricalPerformance\<close> records for a validator, as a function of
  the remote answers: the points, the reward and the commission of the era, or nothing.
\<close>

definition fetchedPoints :: "Remote \<Rightarrow> string \<Rightarrow> int \<Rightarrow> number option" where
  "fetchedPoints api a era =
     (case ErasRewardPoints api era of
        Resolves (Some ep) \<Rightarrow>
          (case ErasValidatorReward api era of
             Rejects m \<Rightarrow> None
           | Resolves r \<Rightarrow> map_of (individual ep) a)
      | _ \<Rightarrow> None)"

definition fetchedReward :: "Remote \<Rightarrow> string \<Rightarrow> int \<Rightarrow> int option" where
  "fetchedReward api a era =
     (case ErasRewardPoints api era of
        Resolves (Some ep) \<Rightarrow>
          (case ErasValidatorReward api era of
             Resolves (Some r) \<Rightarrow>
               (case map_of (individual ep) a of
                  Some p \<Rightarrow>
                    if r \<noteq> 0 \<and> total_points ep > 0
                    then Some (fixedPointShare r p (total_points ep)) else None
                | None \<Rightarrow> None)
           | _ \<Rightarrow> None)
      | _ \<Rightarrow> None)"

definition fetchedCommission :: "Remote \<Rightarrow> string \<Rightarrow> int \<Rightarrow> number option" where
  "fetchedCommission api a era =
     (case ErasRewardPoints api era of
        Rejects m \<Rightarrow> None
      | Resolves ep \<Rightarrow>
          (case ErasValidatorReward api era of
             Rejects m \<Rightarrow> None
           | Resolves r \<Rightarrow>
               (case ErasValidatorPrefs api era a of
                  Resolves (Some p) \<Rightarrow>
                    if prefsCommission p \<noteq> 0
                    then Some (js_div (prefsCommission p) 1000000000) else None
                | _ \<Rightarrow> None)))"




text \<open>
  A store that shows the validator \<open>A\<close> with the APY map \<^verbatim>\<open>{1: 10, 2: 0, 3: 20}\<close> and the two
  averages of lines 1106-1115, as \<^verbatim>\<open>calculateValidatorAPY\<close> has set them before it calls
  \<^verbatim>\<open>calculateAverages\<close>.
\<close>

definition tenZeroTwenty :: ValidatorState where
  "tenZeroTwenty =
     initialState\<lparr>
       displayedValidators :=
         [(newValidator ''A'' 0 False 100 10 0 10 0)\<lparr>
            rewards := \<lparr>currentEraReward = 0, previousErasRewards = [],
                         apyByEra = [(1, 10), (2, 0), (3, 20)],
                         averageAPY = 10, activeOnlyAverageAPY = 15\<rparr>\<rparr>],
       historicalEras := [3, 2, 1]\<rparr>"


section \<open>Batches and items\<close>

lemma onlyCacheAndLog_refl: "onlyCacheAndLog s s"
  unfolding onlyCacheAndLog_def by simp

lemma onlyCacheAndLog_trans:
  assumes "onlyCacheAndLog s t" and "onlyCacheAndLog t u"
  shows "onlyCacheAndLog s u"
proof -
  have "u = t\<lparr>validatorCache := validatorCache u, issued := issued u\<rparr>"
    using assms(2) unfolding onlyCacheAndLog_def .
  also have "t = s\<lparr>validatorCache := validatorCache t, issued := issued t\<rparr>"
    using assms(1) unfolding onlyCacheAndLog_def .
  finally show ?thesis unfolding onlyCacheAndLog_def by simp
qed

lemma onlyCacheAndLog_ask: "onlyCacheAndLog s (ask q s)"
  unfolding onlyCacheAndLog_def ask_def by simp

lemma onlyCacheAndLog_cachePut: "onlyCacheAndLog s (cachePut a v s)"
  unfolding onlyCacheAndLog_def cachePut_def by simp

lemma hydrate_frame: "onlyCacheAndLog s (snd (hydrate api cache era ep e s))"
  unfolding hydrate_def Let_def
  by (auto split: option.splits reply.splits prod.splits
      intro: onlyCacheAndLog_refl onlyCacheAndLog_ask onlyCacheAndLog_cachePut
        onlyCacheAndLog_trans [OF onlyCacheAndLog_ask onlyCacheAndLog_cachePut]
        onlyCacheAndLog_trans [OF onlyCacheAndLog_ask
          onlyCacheAndLog_trans [OF onlyCacheAndLog_ask onlyCacheAndLog_cachePut]])

lemma runItems_frame:
  assumes "\<And>x s. R s (snd (f x s))" and "\<And>s. R s s" and "\<And>s t u. R s t \<Longrightarrow> R t u \<Longrightarrow> R s u"
  shows "R s (snd (runItems f xs s))"
proof (induction xs arbitrary: s)
  case Nil
  show ?case by (simp add: assms(2))
next
  case (Cons x xs)
  obtain r s1 where f: "f x s = (r, s1)" by (cases "f x s")
  obtain rs s2 where g: "runItems f xs s1 = (rs, s2)" by (cases "runItems f xs s1")
  have "R s s1" using assms(1) [of s x] f by simp
  moreover have "R s1 s2" using Cons.IH [of s1] g by simp
  ultimately show ?case using f g by (simp add: assms(3) [of s s1 s2])
qed

lemma runItems_append:
  "runItems f (xs @ ys) s =
     (case runItems f xs s of (rs, s1) \<Rightarrow>
        case runItems f ys s1 of (qs, s2) \<Rightarrow> (rs @ qs, s2))"
  by (induction xs arbitrary: s) (auto split: prod.splits)

lemma concat_batches: "0 < b \<Longrightarrow> concat (batches b xs) = xs"
proof (induction b xs rule: batches.induct)
  case (1 b xs)
  then show ?case by (subst batches.simps) auto
qed

lemma fold_runItems:
  "fold (\<lambda>batch (acc, t). case runItems f batch t of (rs, t1) \<Rightarrow> (acc @ rs, t1)) bs (acc, s) =
     (case runItems f (concat bs) s of (rs, s1) \<Rightarrow> (acc @ rs, s1))"
proof (induction bs arbitrary: acc s)
  case Nil
  show ?case by simp
next
  case (Cons b bs)
  show ?case by (simp add: Cons.IH runItems_append split: prod.splits)
qed

lemma fetchValidatorPage_eq:
  "filteredValidators s \<noteq> [] \<Longrightarrow>
   fetchValidatorPage api page s =
     (let pageValidators = js_slice (filteredValidators s) ((page - 1) * pageSize s)
                             ((page - 1) * pageSize s + pageSize s);
          (vs, s2) = runItems (hydrate api (validatorCache s) (activeEra s) (st_currentEraPoints s))
                       pageValidators (s\<lparr>loadingPage := True, currentPage := page\<rparr>)
      in s2\<lparr>displayedValidators := vs, loadingPage := False\<rparr>)"
  by (simp add: fetchValidatorPage_def Let_def fold_runItems concat_batches split: prod.splits)

lemma fetchValidatorPage_frame:
  assumes "filteredValidators s \<noteq> []"
  shows "fetchValidatorPage api page s =
           s\<lparr>currentPage := page,
             displayedValidators := displayedValidators (fetchValidatorPage api page s),
             validatorCache := validatorCache (fetchValidatorPage api page s),
             loadingPage := False,
             issued := issued (fetchValidatorPage api page s)\<rparr>"
proof -
  let ?s1 = "s\<lparr>loadingPage := True, currentPage := page\<rparr>"
  let ?f = "hydrate api (validatorCache s) (activeEra s) (st_currentEraPoints s)"
  let ?xs = "js_slice (filteredValidators s) ((page - 1) * pageSize s)
                             ((page - 1) * pageSize s + pageSize s)"
  obtain vs s2 where r: "runItems ?f ?xs ?s1 = (vs, s2)" by (cases "runItems ?f ?xs ?s1")
  have "onlyCacheAndLog ?s1 (snd (runItems ?f ?xs ?s1))"
    by (rule runItems_frame) (auto intro: hydrate_frame onlyCacheAndLog_refl onlyCacheAndLog_trans)
  then have s2: "s2 = ?s1\<lparr>validatorCache := validatorCache s2, issued := issued s2\<rparr>"
    using r unfolding onlyCacheAndLog_def by simp
  have "fetchValidatorPage api page s = s2\<lparr>displayedValidators := vs, loadingPage := False\<rparr>"
    using assms r by (simp add: fetchValidatorPage_eq Let_def)
  then show ?thesis by (subst (1 2 3 4) \<open>fetchValidatorPage api page s = _\<close>, subst s2) simp
qed

section \<open>Properties of the page fetch\<close>

text \<open>
  Claim C10. When \<^verbatim>\<open>filteredValidators\<close> is empty, \<^verbatim>\<open>fetchValidatorPage(n)\<close> returns the
  state it was given, for every page number \<open>n\<close> and whatever the remote service would
  answer: \<^verbatim>\<open>currentPage\<close>, \<^verbatim>\<open>displayedValidators\<close>, \<^verbatim>\<open>validatorCache\<close>, \<^verbatim>\<open>loadingPage\<close> and
  \<^verbatim>\<open>error\<close> are unchanged, and so is the list of issued queries: no remote fetch is sent.
\<close>

theorem fetchValidatorPage_empty_noop:
  "filteredValidators s = [] \<Longrightarrow> fetchValidatorPage api n s = s"
  by (simp add: fetchValidatorPage_def)

theorem fetchValidatorPage_empty_noop_witness:
  "filteredValidators initialState = [] \<and>
   fetchValidatorPage offlineRemote 3 initialState = initialState"
  using fetchValidatorPage_empty_noop [of initialState offlineRemote 3]
  by (simp add: initialState_def)

lemma fetchValidatorPage_currentPage:
  "currentPage (fetchValidatorPage api page s) =
     (if filteredValidators s = [] then currentPage s else page)"
proof (cases "filteredValidators s = []")
  case True
  then show ?thesis by (simp add: fetchValidatorPage_def)
next
  case False
  then show ?thesis by (subst fetchValidatorPage_frame) simp_all
qed

section \<open>Properties of the filter\<close>

lemma map_filter_append:
  "List.map_filter f (xs @ ys) = List.map_filter f xs @ List.map_filter f ys"
  by (simp add: List.map_filter_def)

lemma fold_runItems_post:
  assumes "\<And>xs ys. g (xs @ ys) = g xs @ g ys"
  shows "fold (\<lambda>batch (acc, t). case runItems f batch t of (rs, t1) \<Rightarrow> (acc @ g rs, t1)) bs (acc, s) =
     (case runItems f (concat bs) s of (rs, s1) \<Rightarrow> (acc @ g rs, s1))"
proof (induction bs arbitrary: acc s)
  case Nil
  show ?case by (simp add: assms [of "[]" "[]", simplified])
next
  case (Cons b bs)
  show ?case by (simp add: Cons.IH runItems_append assms split: prod.splits)
qed

lemma checkMembership_frame: "onlyCacheAndLog s (snd (checkMembership api cache f b e s))"
  unfolding checkMembership_def Let_def
  by (auto split: option.splits reply.splits intro: onlyCacheAndLog_refl onlyCacheAndLog_ask)

lemma retained_frame: "onlyCacheAndLog (s\<lparr>loadingPage := True\<rparr>) (snd (retained api s))"
proof (cases "includeFullCommission s \<and> includeBlockedNominations s")
  case True
  then show ?thesis by (simp add: retained_def onlyCacheAndLog_refl)
next
  case False
  let ?f = "checkMembership api (validatorCache s) (includeFullCommission s)
                   (includeBlockedNominations s)"
  have "onlyCacheAndLog (s\<lparr>loadingPage := True\<rparr>)
          (snd (runItems ?f (allValidators s) (s\<lparr>loadingPage := True\<rparr>)))"
    by (rule runItems_frame)
      (auto intro: checkMembership_frame onlyCacheAndLog_refl onlyCacheAndLog_trans)
  with False show ?thesis by (auto simp: retained_def split: prod.splits)
qed

lemma retained_state:
  assumes "retained api s = (rs, t)"
  shows "t = s\<lparr>loadingPage := True, validatorCache := validatorCache t, issued := issued t\<rparr>"
  using retained_frame [of s api] assms unfolding onlyCacheAndLog_def by simp

lemma applyFilters_eq:
  "applyFilters api s =
     (case retained api s of (filteredResults, s2) \<Rightarrow>
        let sorted = (if lastEraAPYCalculated s
                      then sort_key (\<lambda>e. - cachedAPY (validatorCache s) e) filteredResults
                      else filteredResults);
            s3 = s2\<lparr>filteredValidators := sorted, totalValidators := length sorted,
                    loadingPage := False\<rparr>
        in if list_ex (notCached (validatorCache s)) sorted \<and> \<not> calculatingLastEraAPY s3
           then s3\<lparr>timers := timers s3 @ [(500, CalculateLastEraAPY)]\<rparr> else s3)"
  unfolding applyFilters_def retained_def Let_def
  by (simp add: fold_runItems_post [where g = "List.map_filter id"] map_filter_append
      concat_batches split: prod.splits)

lemma applyFilters_currentPage: "currentPage (applyFilters api s) = currentPage s"
proof -
  obtain rs t where r: "retained api s = (rs, t)" by (cases "retained api s")
  have "currentPage t = currentPage s" by (rule ssubst [OF retained_state [OF r]]) simp
  then show ?thesis by (simp add: applyFilters_eq r Let_def)
qed

lemmas store_defs = setFilterOptions_def withFilterOptions_def setPageSize_def applyFilters_def
  fetchValidatorPage_def checkMembership_def hydrate_def batches.simps js_slice_def
  initialState_def offlineRemote_def newValidator_def cachedAPY_def notCached_def ask_def
  cachePut_def Let_def List.map_filter_def or0_def prefsCommissionValue_def prefsBlocked_def

section \<open>Page reset\<close>

text \<open>
  Claim C7, as the code has it. \<^verbatim>\<open>setPageSize(n)\<close> and \<^verbatim>\<open>setFilterOptions(options)\<close> (with the
  refiltering and the page fetch it chains) end with \<^verbatim>\<open>fetchValidatorPage(1)\<close>, which sets
  \<^verbatim>\<open>currentPage\<close> to 1 only behind its guard on an empty \<^verbatim>\<open>filteredValidators\<close>: the page is 1
  afterwards when the filtered list (after refiltering, for \<^verbatim>\<open>setFilterOptions\<close>) is not
  empty, and it is left as it was when the list is empty.
\<close>

theorem page_reset_unless_empty:
  "currentPage (setPageSize api n s) = (if filteredValidators s = [] then currentPage s else 1) \<and>
   currentPage (setFilterOptions api optFull optBlocked s) =
     (if filteredValidators (applyFilters api (withFilterOptions optFull optBlocked s)) = []
      then currentPage s else 1)"
  by (simp add: setPageSize_def setFilterOptions_def fetchValidatorPage_currentPage
      applyFilters_currentPage withFilterOptions_def)

text \<open>
  At a store showing page 3 of a non-empty list both actions reset the page; the same
  store after its only validator has been filtered out keeps page 3.
\<close>

theorem page_reset_unless_empty_witness:
  "currentPage (fetchValidatorPage offlineRemote 3 (applyFilters offlineRemote soleFullCommission)) = 3 \<and>
   currentPage (setPageSize offlineRemote 25
     (fetchValidatorPage offlineRemote 3 (applyFilters offlineRemote soleFullCommission))) = 1 \<and>
   currentPage (setFilterOptions offlineRemote None (Some False)
     (fetchValidatorPage offlineRemote 3 (applyFilters offlineRemote soleFullCommission))) = 1"
  using page_reset_unless_empty [of offlineRemote 25
      "fetchValidatorPage offlineRemote 3 (applyFilters offlineRemote soleFullCommission)"
      None "Some False"]
  by (simp add: store_defs soleFullCommission_def)

text \<open>
  Claim C7 as stated fails when the filtered list is empty. The store shows page 3 of its
  one validator, which has a commission of 100%; excluding full-commission validators
  empties the filtered list, and \<^verbatim>\<open>currentPage\<close> is still 3 after \<^verbatim>\<open>setFilterOptions\<close>, and
  after a \<^verbatim>\<open>setPageSize\<close> that follows.
\<close>

theorem page_reset_counterexample:
  "currentPage (setFilterOptions offlineRemote (Some False) None
     (fetchValidatorPage offlineRemote 3 (applyFilters offlineRemote soleFullCommission))) \<noteq> 1 \<and>
   currentPage (setPageSize offlineRemote 25
     (setFilterOptions offlineRemote (Some False) None
        (fetchValidatorPage offlineRemote 3 (applyFilters offlineRemote soleFullCommission)))) \<noteq> 1"
  by (simp add: store_defs soleFullCommission_def)

section \<open>Rounding to binary64\<close>

lemma pow2_powi: "pow2 e = 2 powi e"
  by (simp add: pow2_def power_int_def inverse_eq_divide power_one_over)

lemma pow2_pos: "0 < pow2 e"
  by (simp add: pow2_powi)

lemma pow2_add: "pow2 (a + b) = pow2 a * pow2 b"
  by (simp add: pow2_powi power_int_add)

lemma pow2_mono: "a \<le> b \<Longrightarrow> pow2 a \<le> pow2 b"
  by (simp add: pow2_powi power_int_increasing)

lemma ilog2_bounds:
  assumes "0 < x"
  shows "pow2 (ilog2 x) \<le> x \<and> x < pow2 (ilog2 x + 1)"
proof -
  obtain a b where q: "quotient_of x = (a, b)" by (cases "quotient_of x")
  have b: "0 < b" using q by (rule quotient_of_denom_pos)
  have x: "x = of_int a / of_int b" using q by (rule quotient_of_div)
  have a: "0 < a" using assms b x by (simp add: zero_less_divide_iff)
  let ?la = "bitlen a" and ?lb = "bitlen b"
  have la: "2 ^ nat (?la - 1) \<le> a" "a < 2 ^ nat ?la" using bitlen_bounds [OF a] by auto
  have lb: "2 ^ nat (?lb - 1) \<le> b" "b < 2 ^ nat ?lb" using bitlen_bounds [OF b] by auto
  have la1: "1 \<le> ?la" using a by (simp add: bitlen_alt_def)
  have lb1: "1 \<le> ?lb" using b by (simp add: bitlen_alt_def)
  have pa: "pow2 (?la - 1) \<le> of_int a" "of_int a < pow2 ?la"
  proof -
    have "pow2 (?la - 1) = of_int (2 ^ nat (?la - 1))" using la1 by (simp add: pow2_def)
    also have "\<dots> \<le> of_int a" using la(1) by (simp only: of_int_le_iff)
    finally show "pow2 (?la - 1) \<le> of_int a" .
    have "of_int a < (of_int (2 ^ nat ?la) :: rat)" using la(2) by (simp only: of_int_less_iff)
    also have "\<dots> = pow2 ?la" using la1 by (simp add: pow2_def)
    finally show "of_int a < pow2 ?la" .
  qed
  have pb: "pow2 (?lb - 1) \<le> of_int b" "of_int b < pow2 ?lb"
  proof -
    have "pow2 (?lb - 1) = of_int (2 ^ nat (?lb - 1))" using lb1 by (simp add: pow2_def)
    also have "\<dots> \<le> of_int b" using lb(1) by (simp only: of_int_le_iff)
    finally show "pow2 (?lb - 1) \<le> of_int b" .
    have "of_int b < (of_int (2 ^ nat ?lb) :: rat)" using lb(2) by (simp only: of_int_less_iff)
    also have "\<dots> = pow2 ?lb" using lb1 by (simp add: pow2_def)
    finally show "of_int b < pow2 ?lb" .
  qed
  let ?d = "?la - ?lb"
  have bpos: "(0::rat) < of_int b" using b by simp
  have lower: "pow2 (?d - 1) \<le> x"
  proof -
    have "pow2 (?d - 1) * of_int b \<le> pow2 (?d - 1) * pow2 ?lb"
      using pb(2) pow2_pos [of "?d - 1"] by (simp add: mult_left_mono less_imp_le)
    also have "\<dots> = pow2 (?la - 1)" by (simp add: pow2_add [symmetric])
    also have "\<dots> \<le> of_int a" by (rule pa(1))
    finally show ?thesis using bpos by (simp add: x pos_le_divide_eq)
  qed
  have upper: "x < pow2 (?d + 1)"
  proof -
    have "of_int a < pow2 ?la" by (rule pa(2))
    also have "\<dots> = pow2 (?d + 1) * pow2 (?lb - 1)" by (simp add: pow2_add [symmetric])
    also have "\<dots> \<le> pow2 (?d + 1) * of_int b"
      using pb(1) pow2_pos [of "?d + 1"] by (simp add: mult_left_mono less_imp_le)
    finally show ?thesis using bpos by (simp add: x pos_divide_less_eq)
  qed
  show ?thesis
  proof (cases "pow2 ?d \<le> x")
    case True
    then have "ilog2 x = ?d" by (simp add: ilog2_def q)
    then show ?thesis using True upper by simp
  next
    case False
    then have "ilog2 x = ?d - 1" by (simp add: ilog2_def q)
    then show ?thesis using False lower by simp
  qed
qed

lemma round_half_even_nearest:
  "\<bar>of_int (round_half_even m) - m\<bar> \<le> \<bar>of_int z - m\<bar>"
proof -
  define f where "f = \<lfloor>m\<rfloor>"
  define r where "r = m - of_int f"
  have r: "0 \<le> r" "r < 1" unfolding r_def f_def by linarith+
  have m: "m = of_int f + r" unfolding r_def by simp
  have zcases: "z \<le> f \<or> f + 1 \<le> z" by linarith
  have dist: "r \<le> \<bar>of_int z - m\<bar>" if "z \<le> f"
  proof -
    have "(of_int z :: rat) \<le> of_int f" using that by (simp only: of_int_le_iff)
    then show ?thesis using r unfolding m by linarith
  qed
  have dist': "1 - r \<le> \<bar>of_int z - m\<bar>" if "f + 1 \<le> z"
  proof -
    have "(of_int (f + 1) :: rat) \<le> of_int z" using that by (simp only: of_int_le_iff)
    then have "of_int f + 1 \<le> (of_int z :: rat)" by simp
    then show ?thesis using r unfolding m by linarith
  qed
  have n: "round_half_even m = (if r < 1 / 2 then f else if 1 / 2 < r then f + 1
                                else if even f then f else f + 1)"
    unfolding round_half_even_def Let_def f_def r_def by simp
  have d0: "\<bar>of_int f - m\<bar> = r" using r unfolding m by simp
  have d1: "\<bar>of_int (f + 1) - m\<bar> = 1 - r" using r unfolding m by simp
  consider (lo) "r < 1 / 2" | (hi) "1 / 2 < r" | (tie) "r = 1 / 2" by linarith
  then show ?thesis
  proof cases
    case lo
    then have "\<bar>of_int (round_half_even m) - m\<bar> = r" using n d0 by simp
    moreover have "r \<le> \<bar>of_int z - m\<bar>" using zcases dist dist' lo by linarith
    ultimately show ?thesis by simp
  next
    case hi
    then have "\<bar>of_int (round_half_even m) - m\<bar> = 1 - r" using n d1 by simp
    moreover have "1 - r \<le> \<bar>of_int z - m\<bar>" using zcases dist dist' hi by linarith
    ultimately show ?thesis by simp
  next
    case tie
    then have "\<bar>of_int (round_half_even m) - m\<bar> = 1 / 2"
      using n d0 d1 by (cases "even f") simp_all
    moreover have "1 / 2 \<le> \<bar>of_int z - m\<bar>" using zcases dist dist' tie by linarith
    ultimately show ?thesis by simp
  qed
qed

lemma fl_pos:
  assumes "0 < x"
  shows "fl x = of_int (round_half_even (x / pow2 (max (ilog2 x) (- 1022) - 52))) *
                  pow2 (max (ilog2 x) (- 1022) - 52)"
  using assms by (simp add: fl_def Let_def)

lemma fl_grid:
  assumes "0 < x"
  shows "\<bar>fl x - x\<bar> \<le> \<bar>of_int z * pow2 (max (ilog2 x) (- 1022) - 52) - x\<bar>"
proof -
  define E where "E = max (ilog2 x) (- 1022) - 52"
  define m where "m = x / pow2 E"
  have p: "0 < pow2 E" by (rule pow2_pos)
  have x: "x = m * pow2 E" using p by (simp add: m_def)
  have flx: "fl x = of_int (round_half_even m) * pow2 E"
    unfolding m_def E_def by (rule fl_pos [OF assms])
  have "fl x - x = (of_int (round_half_even m) - m) * pow2 E"
    unfolding flx by (subst x) (simp add: left_diff_distrib)
  then have "\<bar>fl x - x\<bar> = \<bar>of_int (round_half_even m) - m\<bar> * pow2 E"
    using p by (simp add: abs_mult)
  also have "\<dots> \<le> \<bar>of_int z - m\<bar> * pow2 E"
    using round_half_even_nearest [of m z] p by (simp add: mult_right_mono)
  also have "\<dots> = \<bar>(of_int z - m) * pow2 E\<bar>"
    using p by (simp add: abs_mult)
  also have "(of_int z - m) * pow2 E = of_int z * pow2 E - x"
    by (subst x) (simp add: left_diff_distrib)
  finally show ?thesis unfolding E_def .
qed

lemma fl_nearest:
  assumes "0 < x" and "0 < n" and "n \<le> 2 ^ 53" and "- 1074 \<le> e"
  shows "\<bar>fl x - x\<bar> \<le> \<bar>of_int n * pow2 e - x\<bar>"
proof -
  define E where "E = max (ilog2 x) (- 1022) - 52"
  show ?thesis
  proof (cases "E \<le> e")
    case True
    define z where "z = n * 2 ^ nat (e - E)"
    have "pow2 e = pow2 (e - E) * pow2 E" by (simp add: pow2_add [symmetric])
    moreover have "pow2 (e - E) = 2 ^ nat (e - E)" using True by (simp add: pow2_def)
    ultimately have "of_int n * pow2 e = of_int z * pow2 E" by (simp add: z_def)
    then show ?thesis using fl_grid [OF assms(1), of z] by (simp add: E_def)
  next
    case False
    then have "- 1022 < ilog2 x" using assms(4) unfolding E_def by linarith
    then have E: "E = ilog2 x - 52" unfolding E_def by simp
    have g: "of_int (2 ^ 52) * pow2 E = pow2 (ilog2 x)"
    proof -
      have "pow2 (ilog2 x) = pow2 (52 + E)" by (simp add: E)
      also have "\<dots> = pow2 52 * pow2 E" by (rule pow2_add)
      also have "pow2 52 = of_int (2 ^ 52)" by (simp add: pow2_def)
      finally show ?thesis by simp
    qed
    have gx: "pow2 (ilog2 x) \<le> x" using ilog2_bounds [OF assms(1)] by simp
    have "of_int n * pow2 e \<le> of_int (2 ^ 53) * pow2 e"
      using assms(3) pow2_pos [of e] by (simp only: of_int_le_iff mult_right_mono less_imp_le)
    also have "of_int (2 ^ 53) = pow2 53" by (simp add: pow2_def)
    also have "pow2 53 * pow2 e = pow2 (53 + e)" by (simp add: pow2_add)
    also have "\<dots> \<le> pow2 (ilog2 x)" using False by (intro pow2_mono) (simp add: E)
    finally have d: "of_int n * pow2 e \<le> pow2 (ilog2 x)" .
    have "\<bar>fl x - x\<bar> \<le> \<bar>pow2 (ilog2 x) - x\<bar>"
      using fl_grid [OF assms(1), of "2 ^ 52"] g by (simp add: E_def [symmetric])
    then show ?thesis using d gx by linarith
  qed
qed


section \<open>Membership in the filtered list\<close>

lemma js_div_0 [simp]: "js_div 0 x = 0"
  by (simp add: js_div_def fl_def)

lemma runItems_fst:
  assumes "\<And>x s. I s \<Longrightarrow> I (snd (f x s))" and "\<And>x s. I s \<Longrightarrow> fst (f x s) = g x" and "I s"
  shows "fst (runItems f xs s) = map g xs"
  using assms(3)
proof (induction xs arbitrary: s)
  case Nil
  show ?case by simp
next
  case (Cons x xs)
  obtain r s1 where f: "f x s = (r, s1)" by (cases "f x s")
  have "I s1" using assms(1) [OF Cons.prems, of x] f by simp
  then have "fst (runItems f xs s1) = map g xs" by (rule Cons.IH)
  moreover have "r = g x" using assms(2) [OF Cons.prems, of x] f by simp
  ultimately show ?case using f by (cases "runItems f xs s1") simp
qed

lemma checkMembership_fst:
  "fst (checkMembership api cache f b e s) =
     (if (f \<or> knownCommission api cache (entryAddress e) < 1) \<and>
         (b \<or> \<not> knownBlocked api cache (entryAddress e))
      then Some \<lparr>entryAddress = entryAddress e, entryPoints = entryPoints e,
                 entryLastEraAPY = Some (case cache (entryAddress e) of
                                           Some v \<Rightarrow> lastEraAPY v | None \<Rightarrow> 0)\<rparr>
      else None)"
  unfolding checkMembership_def knownCommission_def knownBlocked_def Let_def
    prefsCommissionValue_def prefsBlocked_def
  by (auto split: option.splits reply.splits)

lemma map_filter_id_map_if:
  "List.map_filter id (map (\<lambda>x. if P x then Some (h x) else None) xs) = map h (filter P xs)"
  by (induction xs) (simp_all add: List.map_filter_def)

lemma retained_entries:
  "fst (retained api s) =
     (if includeFullCommission s \<and> includeBlockedNominations s then allValidators s
      else map (\<lambda>e. \<lparr>entryAddress = entryAddress e, entryPoints = entryPoints e,
                      entryLastEraAPY = Some (case validatorCache s (entryAddress e) of
                                                Some v \<Rightarrow> lastEraAPY v | None \<Rightarrow> 0)\<rparr>)
             (filter (\<lambda>e. passesFilters api s (entryAddress e)) (allValidators s)))"
proof (cases "includeFullCommission s \<and> includeBlockedNominations s")
  case True
  then show ?thesis by (simp add: retained_def)
next
  case False
  let ?f = "checkMembership api (validatorCache s) (includeFullCommission s)
                   (includeBlockedNominations s)"
  let ?P = "\<lambda>e. passesFilters api s (entryAddress e)"
  let ?h = "\<lambda>e. \<lparr>entryAddress = entryAddress e, entryPoints = entryPoints e,
                      entryLastEraAPY = Some (case validatorCache s (entryAddress e) of
                                                Some v \<Rightarrow> lastEraAPY v | None \<Rightarrow> 0)\<rparr>"
  have "fst (runItems ?f (allValidators s) (s\<lparr>loadingPage := True\<rparr>)) =
          map (\<lambda>e. if ?P e then Some (?h e) else None) (allValidators s)"
    by (rule runItems_fst [where I = "\<lambda>s. True"])
      (simp_all add: checkMembership_fst passesFilters_def)
  moreover have "retained api s =
      (case runItems ?f (allValidators s) (s\<lparr>loadingPage := True\<rparr>) of
         (rs, t) \<Rightarrow> (List.map_filter id rs, t))"
    unfolding retained_def using False by (simp only: if_False)
  ultimately have "fst (retained api s) = map ?h (filter ?P (allValidators s))"
    by (cases "runItems ?f (allValidators s) (s\<lparr>loadingPage := True\<rparr>)")
      (simp add: map_filter_id_map_if)
  then show ?thesis using False by (simp only: if_False)
qed

lemma retained_addresses:
  "map entryAddress (fst (retained api s)) =
     filter (passesFilters api s) (map entryAddress (allValidators s))"
  by (auto simp: retained_entries passesFilters_def filter_map comp_def)

lemma applyFilters_filtered:
  "filteredValidators (applyFilters api s) =
     (if lastEraAPYCalculated s
      then sort_key (\<lambda>e. - cachedAPY (validatorCache s) e) (fst (retained api s))
      else fst (retained api s))"
  by (simp add: applyFilters_eq Let_def split: prod.splits)

lemma applyFilters_addresses:
  "entryAddress ` set (filteredValidators (applyFilters api s)) =
     {a \<in> entryAddress ` set (allValidators s). passesFilters api s a}"
proof -
  have "entryAddress ` set (filteredValidators (applyFilters api s)) =
          set (map entryAddress (fst (retained api s)))"
    by (simp add: applyFilters_filtered)
  then show ?thesis unfolding retained_addresses by auto
qed

section \<open>The displayed page\<close>


lemma onlyCacheAndLog_error:
  assumes "onlyCacheAndLog s t"
  shows "error t = error s"
  by (rule ssubst [OF assms [unfolded onlyCacheAndLog_def]]) simp











section \<open>Claim C6: membership in the filtered list\<close>

text \<open>
  Claim C6. After \<^verbatim>\<open>applyFilters\<close> an address is in \<^verbatim>\<open>filteredValidators\<close> exactly when it
  is in \<^verbatim>\<open>allValidators\<close> and (\<^verbatim>\<open>includeFullCommission\<close> or its commission is below 1.0) and
  (\<^verbatim>\<open>includeBlockedNominations\<close> or it is not blocked), the commission and the blocked flag
  being those of the cached record when the validator is cached (else those the preference
  query returns, commission 0 and not blocked when it gives nothing). In particular, with
  \<^verbatim>\<open>includeFullCommission\<close> false a validator cached with a commission of at least 1.0 is
  not in \<^verbatim>\<open>filteredValidators\<close>.
\<close>

theorem filter_membership:
  "(a \<in> entryAddress ` set (filteredValidators (applyFilters api s)) \<longleftrightarrow>
      a \<in> entryAddress ` set (allValidators s) \<and>
      (includeFullCommission s \<or> knownCommission api (validatorCache s) a < 1) \<and>
      (includeBlockedNominations s \<or> \<not> knownBlocked api (validatorCache s) a)) \<and>
   (\<not> includeFullCommission s \<and> validatorCache s a = Some v \<and> commission v \<ge> 1 \<longrightarrow>
      a \<notin> entryAddress ` set (filteredValidators (applyFilters api s)))"
  unfolding applyFilters_addresses passesFilters_def
  by (auto simp: knownCommission_def)

text \<open>
  The validator of \<open>soleFullCommission\<close> is cached with commission 1: it is filtered out
  once full-commission validators are excluded, and kept while they are included.
\<close>

theorem filter_membership_witness:
  "\<not> includeFullCommission (soleFullCommission\<lparr>includeFullCommission := False\<rparr>) \<and>
   validatorCache (soleFullCommission\<lparr>includeFullCommission := False\<rparr>) ''A'' =
     Some (newValidator ''A'' 1 False 0 0 0 7 0) \<and>
   commission (newValidator ''A'' 1 False 0 0 0 7 0) \<ge> 1 \<and>
   ''A'' \<in> entryAddress ` set (allValidators (soleFullCommission\<lparr>includeFullCommission := False\<rparr>)) \<and>
   ''A'' \<notin> entryAddress ` set (filteredValidators
              (applyFilters offlineRemote (soleFullCommission\<lparr>includeFullCommission := False\<rparr>))) \<and>
   ''A'' \<in> entryAddress ` set (filteredValidators (applyFilters offlineRemote soleFullCommission))"
  using filter_membership [of "''A''" offlineRemote
      "soleFullCommission\<lparr>includeFullCommission := False\<rparr>" "newValidator ''A'' 1 False 0 0 0 7 0"]
    filter_membership [of "''A''" offlineRemote soleFullCommission]
  by (simp add: soleFullCommission_def initialState_def newValidator_def knownCommission_def
      knownBlocked_def)

section \<open>Claim C8: the invariants of the displayed page\<close>





section \<open>Claim C9: failures of single items\<close>






section \<open>Evaluation on the sample service\<close>

lemma eraAPY_sample:
  "eraAPY 400 10 10 0 100 = 146100" "eraAPY 200 10 10 0 100 = 73050" "eraAPY 400 10 10 1 100 = 0"
  by code_simp+

lemma fixedPointShare_sample:
  "fixedPointShare 400 10 10 = 400" "fixedPointShare 200 10 10 = 200"
  by code_simp+

lemma js_div_sample: "js_div 1000000000 1000000000 = 1"
  by code_simp

lemma erasBack_sample: "erasBack 4 4 = [3, 2, 1, 0]" "erasBack 4 (Suc 0) = [3]"
  by code_simp+

lemma fold_runItems_snd:
  "fold (\<lambda>batch t. snd (runItems f batch t)) bs t = snd (runItems f (concat bs) t)"
proof (induction bs arbitrary: t)
  case Nil
  show ?case by simp
next
  case (Cons b bs)
  show ?case by (simp add: Cons.IH runItems_append split: prod.splits)
qed

lemma fold_batches_snd:
  "0 < n \<Longrightarrow> fold (\<lambda>batch t. snd (runItems f batch t)) (batches n xs) t = snd (runItems f xs t)"
  by (simp add: fold_runItems_snd concat_batches)

lemmas bulk_defs = calculateLastEraAPYForAllValidators_def lastEraBatch_def lastEraItem_def
  computeLastEraAPY_def lookupLast_def sampleRemote_def showingA_def

lemmas history_defs = fetchHistoricalPerformance_def historicalItem_def recordPoints_def
  recordCommission_def withHistory_def fold_batches_snd sampleRemote_def showingA_def
  initialState_def newValidator_def ask_def cachePut_def Let_def erasBack_sample
  fixedPointShare_sample js_div_sample

lemma average_sample:
  "allErasAverage [(1, 10), (2, 0), (3, 20)] = 10"
  "activeErasAverage [(1, 10), (2, 0), (3, 20)] = 15"
  "averageOr 0 [20, 10] = 15"
  "allErasAverage [(3, 146100), (2, 73050), (1, 0)] = 73050"
  "activeErasAverage [(3, 146100), (2, 73050), (1, 0)] = 109575"
  "averageOr 0 [146100, 73050] = 109575"
  by code_simp+

lemmas apy_defs = setSelectedHistoricalValidator_def calculateValidatorAPY_def apyItem_def
  calculateAverages_def withAverages_def withAPY_def truthyAPYs_def definedAt_def
  List.map_filter_def

section \<open>Claim C5: the bulk job while another one is in flight\<close>

text \<open>
  \<^verbatim>\<open>applyFilters\<close> does not queue the bulk job while \<^verbatim>\<open>calculatingLastEraAPY\<close> is set (line 326).
\<close>

lemma applyFilters_single_flight:
  assumes "calculatingLastEraAPY s"
  shows "timers (applyFilters api s) = timers s"
proof -
  obtain rs t where r: "retained api s = (rs, t)" by (cases "retained api s")
  have "timers t = timers s \<and> calculatingLastEraAPY t = calculatingLastEraAPY s"
    by (rule ssubst [OF retained_state [OF r]]) simp
  then show ?thesis using assms by (simp add: applyFilters_eq r Let_def)
qed

text \<open>
  The job itself never reads the flag: it runs in the same way whether or not another run is
  in flight.
\<close>

lemma calculateLastEraAPYForAllValidators_ignores_flag:
  "calculateLastEraAPYForAllValidators api (s\<lparr>calculatingLastEraAPY := b\<rparr>) =
     calculateLastEraAPYForAllValidators api s"
  unfolding calculateLastEraAPYForAllValidators_def
  by (simp cong: reply.case_cong option.case_cong if_cong)

text \<open>
  Claim C5 fails on the code: \<^verbatim>\<open>calculateLastEraAPYForAllValidators\<close> itself does not look at
  \<^verbatim>\<open>calculatingLastEraAPY\<close>. Called on a store where the flag is set, with the sample
  service, it sends four queries, rewrites the APY of the filtered entry, and leaves the
  flag \<^verbatim>\<open>calculatingLastEraAPY\<close> false and \<^verbatim>\<open>lastEraAPYCalculated\<close> true, while the first job is
  still running.
\<close>

theorem single_flight_violated:
  "calculatingLastEraAPY (showingA\<lparr>calculatingLastEraAPY := True\<rparr>) \<and>
   issued (calculateLastEraAPYForAllValidators sampleRemote
             (showingA\<lparr>calculatingLastEraAPY := True\<rparr>)) =
     [QErasValidatorReward 3, QErasRewardPoints 3, QErasValidatorPrefs 3 ''A'',
      QErasStakersOverview 3 ''A''] \<and>
   filteredValidators (calculateLastEraAPYForAllValidators sampleRemote
             (showingA\<lparr>calculatingLastEraAPY := True\<rparr>)) =
     [\<lparr>entryAddress = ''A'', entryPoints = 10, entryLastEraAPY = Some 146100\<rparr>] \<and>
   \<not> calculatingLastEraAPY (calculateLastEraAPYForAllValidators sampleRemote
             (showingA\<lparr>calculatingLastEraAPY := True\<rparr>)) \<and>
   lastEraAPYCalculated (calculateLastEraAPYForAllValidators sampleRemote
             (showingA\<lparr>calculatingLastEraAPY := True\<rparr>))"
  by (simp add: bulk_defs store_defs eraAPY_sample)

section \<open>Claim C1: the history maps after a historical fetch\<close>

lemma runItems_acc:
  assumes "\<And>x acc s k. g (fst (snd (f x (acc, s)))) k =
             (if k = x \<and> h x \<noteq> None then h x else g acc k)"
  shows "g (fst (snd (runItems f xs (acc, s)))) k =
           (if k \<in> set xs \<and> h k \<noteq> None then h k else g acc k)"
proof (induction xs arbitrary: acc s)
  case Nil
  show ?case by simp
next
  case (Cons x xs)
  obtain r acc1 s1 where f: "f x (acc, s) = (r, acc1, s1)" by (cases "f x (acc, s)") auto
  obtain rs acc2 s2 where g: "runItems f xs (acc1, s1) = (rs, acc2, s2)"
    by (cases "runItems f xs (acc1, s1)") auto
  have 1: "g acc1 k = (if k = x \<and> h x \<noteq> None then h x else g acc k)"
    using assms [of x acc s k] f by simp
  have 2: "g acc2 k = (if k \<in> set xs \<and> h k \<noteq> None then h k else g acc1 k)"
    using Cons.IH [of acc1 s1] g by simp
  show ?case using f g 1 2 by auto
qed

lemma historicalItem_points:
  "map_of (validatorPerformance (fst (snd (historicalItem api a era (acc, s))))) k =
     (if k = era \<and> fetchedPoints api a era \<noteq> None then fetchedPoints api a era
      else map_of (validatorPerformance acc) k)"
  unfolding historicalItem_def recordPoints_def recordCommission_def fetchedPoints_def Let_def
  by (auto simp: update_conv' split: reply.splits option.splits)

lemma historicalItem_rewards:
  "map_of (validatorRewards (fst (snd (historicalItem api a era (acc, s))))) k =
     (if k = era \<and> fetchedReward api a era \<noteq> None then fetchedReward api a era
      else map_of (validatorRewards acc) k)"
  unfolding historicalItem_def recordPoints_def recordCommission_def fetchedReward_def Let_def
  by (auto simp: update_conv' split: reply.splits option.splits)

lemma historicalItem_commissions:
  "map_of (validatorCommissions (fst (snd (historicalItem api a era (acc, s))))) k =
     (if k = era \<and> fetchedCommission api a era \<noteq> None then fetchedCommission api a era
      else map_of (validatorCommissions acc) k)"
  unfolding historicalItem_def recordPoints_def recordCommission_def fetchedCommission_def Let_def
  by (auto simp: update_conv' split: reply.splits option.splits)

lemma fetchHistoricalPerformance_cached:
  assumes "a \<noteq> []" and "validatorCache s a = Some v"
    and "forceRefresh \<or> length (previousErasPoints (performance v)) <
           length (erasBack (activeEra s) (historyLength s))"
  shows "validatorCache (fetchHistoricalPerformance api a forceRefresh s) a =
           Some (withHistory v
                   (fst (snd (runItems (historicalItem api a)
                      (erasBack (activeEra s) (historyLength s))
                      (\<lparr>validatorPerformance = [], validatorRewards = [],
                        validatorCommissions = []\<rparr>,
                       s\<lparr>loadingHistoricalData := True,
                         historicalEras := erasBack (activeEra s) (historyLength s)\<rparr>))))
                   (erasBack (activeEra s) (historyLength s)))"
  using assms
  by (auto simp: fetchHistoricalPerformance_def Let_def fold_runItems_snd concat_batches
      cachePut_def split: prod.splits)

text \<open>
  Claim C1, as the code has it. For a validator in the cache, a historical fetch that
  runs its queries (forced, or with fewer known eras than requested) stores a record
  whose maps \<^verbatim>\<open>previousErasPoints\<close>, \<^verbatim>\<open>previousErasRewards\<close> and \<^verbatim>\<open>historicalCommission\<close> are
  exactly the newly fetched per-era data: an era has a value if and only if it is one of
  the requested eras and the fetch gave one, whatever the maps held before. They are
  replaced, not united with the old maps; \<^verbatim>\<open>apyByEra\<close> is kept.
\<close>

theorem history_replaced:
  assumes "a \<noteq> []" and "validatorCache s a = Some v"
    and "forceRefresh \<or> length (previousErasPoints (performance v)) <
           length (erasBack (activeEra s) (historyLength s))"
  shows "\<exists>u. validatorCache (fetchHistoricalPerformance api a forceRefresh s) a = Some u \<and>
           map_of (previousErasPoints (performance u)) =
             (\<lambda>era. if era \<in> set (erasBack (activeEra s) (historyLength s))
                     then fetchedPoints api a era else None) \<and>
           map_of (previousErasRewards (rewards u)) =
             (\<lambda>era. if era \<in> set (erasBack (activeEra s) (historyLength s))
                     then fetchedReward api a era else None) \<and>
           map_of (historicalCommission u) =
             (\<lambda>era. if era \<in> set (erasBack (activeEra s) (historyLength s))
                     then fetchedCommission api a era else None) \<and>
           apyByEra (rewards u) = apyByEra (rewards v)"
proof -
  let ?eras = "erasBack (activeEra s) (historyLength s)"
  let ?acc = "fst (snd (runItems (historicalItem api a) ?eras
                      (\<lparr>validatorPerformance = [], validatorRewards = [],
                        validatorCommissions = []\<rparr>,
                       s\<lparr>loadingHistoricalData := True, historicalEras := ?eras\<rparr>)))"
  have p: "map_of (validatorPerformance ?acc) k =
             (if k \<in> set ?eras then fetchedPoints api a k else None)" for k
    by (subst runItems_acc [where h = "fetchedPoints api a" and g = "\<lambda>acc. map_of (validatorPerformance acc)"])
      (auto simp: historicalItem_points)
  have r: "map_of (validatorRewards ?acc) k =
             (if k \<in> set ?eras then fetchedReward api a k else None)" for k
    by (subst runItems_acc [where h = "fetchedReward api a" and g = "\<lambda>acc. map_of (validatorRewards acc)"])
      (auto simp: historicalItem_rewards)
  have c: "map_of (validatorCommissions ?acc) k =
             (if k \<in> set ?eras then fetchedCommission api a k else None)" for k
    by (subst runItems_acc [where h = "fetchedCommission api a" and g = "\<lambda>acc. map_of (validatorCommissions acc)"])
      (auto simp: historicalItem_commissions)
  show ?thesis
    unfolding fetchHistoricalPerformance_cached [OF assms]
    by (rule exI [of _ "withHistory v ?acc ?eras"])
      (simp add: withHistory_def p r c fun_eq_iff)
qed

text \<open>
  The validator \<open>A\<close> of the store \<open>showingA\<close>, with four eras requested from the sample
  service: points and rewards for the eras 3, 2 and 1, the commission of era 1.
\<close>

theorem history_replaced_witness:
  "''A'' \<noteq> [] \<and>
   validatorCache showingA ''A'' = Some (newValidator ''A'' 0 False 100 10 0 10 0) \<and>
   length (previousErasPoints (performance (newValidator ''A'' 0 False 100 10 0 10 0))) <
     length (erasBack (activeEra showingA) (historyLength showingA)) \<and>
   (\<exists>u. validatorCache (fetchHistoricalPerformance sampleRemote ''A'' False showingA) ''A'' = Some u \<and>
        map (map_of (previousErasPoints (performance u))) [4, 3, 2, 1, 0] =
          [None, Some 10, Some 10, Some 10, None] \<and>
        map (map_of (previousErasRewards (rewards u))) [4, 3, 2, 1, 0] =
          [None, Some 400, Some 200, Some 400, None] \<and>
        map (map_of (historicalCommission u)) [4, 3, 2, 1, 0] =
          [None, None, None, Some 1, None])"
proof -
  have 1: "validatorCache showingA ''A'' = Some (newValidator ''A'' 0 False 100 10 0 10 0)"
    by (simp add: showingA_def)
  have 2: "activeEra showingA = 4" "historyLength showingA = 4"
    by (simp_all add: showingA_def initialState_def)
  have 3: "False \<or> length (previousErasPoints (performance (newValidator ''A'' 0 False 100 10 0 10 0))) <
     length (erasBack (activeEra showingA) (historyLength showingA))"
    by (simp add: 2 erasBack_sample newValidator_def)
  have 4: "''A'' \<noteq> []" by simp
  have f: "fetchedPoints sampleRemote ''A'' 3 = Some 10" "fetchedPoints sampleRemote ''A'' 2 = Some 10"
    "fetchedPoints sampleRemote ''A'' 1 = Some 10" "fetchedPoints sampleRemote ''A'' 0 = None"
    "fetchedReward sampleRemote ''A'' 3 = Some 400" "fetchedReward sampleRemote ''A'' 2 = Some 200"
    "fetchedReward sampleRemote ''A'' 1 = Some 400" "fetchedReward sampleRemote ''A'' 0 = None"
    "fetchedCommission sampleRemote ''A'' 3 = None" "fetchedCommission sampleRemote ''A'' 2 = None"
    "fetchedCommission sampleRemote ''A'' 1 = Some 1" "fetchedCommission sampleRemote ''A'' 0 = None"
    by (simp_all add: fetchedPoints_def fetchedReward_def fetchedCommission_def sampleRemote_def
        fixedPointShare_sample js_div_sample)
  from history_replaced [OF 4 1 3, of sampleRemote]
  obtain u where u: "validatorCache (fetchHistoricalPerformance sampleRemote ''A'' False showingA) ''A'' = Some u"
    "map_of (previousErasPoints (performance u)) =
             (\<lambda>era. if era \<in> set (erasBack (activeEra showingA) (historyLength showingA))
                     then fetchedPoints sampleRemote ''A'' era else None)"
    "map_of (previousErasRewards (rewards u)) =
             (\<lambda>era. if era \<in> set (erasBack (activeEra showingA) (historyLength showingA))
                     then fetchedReward sampleRemote ''A'' era else None)"
    "map_of (historicalCommission u) =
             (\<lambda>era. if era \<in> set (erasBack (activeEra showingA) (historyLength showingA))
                     then fetchedCommission sampleRemote ''A'' era else None)"
    by blast
  show ?thesis using 1 3 u(1)
    by (simp add: u(2,3,4) 2 erasBack_sample f)
qed

text \<open>
  Claim C1 as stated fails: selecting the validator \<open>A\<close> fetches four eras, and its record
  knows the points of the eras 3, 2 and 1; \<^verbatim>\<open>setHistoryLength(1)\<close> then fetches again, and the
  record knows era 3 only. The later update, which covers fewer eras, has erased the
  eras 2 and 1.
\<close>

theorem history_replaced_counterexample:
  "map_option (map fst \<circ> previousErasPoints \<circ> performance)
     (validatorCache (setSelectedHistoricalValidator sampleRemote (Some ''A'') showingA) ''A'') =
     Some [3, 2, 1] \<and>
   map_option (map fst \<circ> previousErasPoints \<circ> performance)
     (validatorCache
        (setHistoryLength sampleRemote 1
           (setSelectedHistoricalValidator sampleRemote (Some ''A'') showingA)) ''A'') =
     Some [3]"
  by (simp add: setHistoryLength_def apy_defs history_defs eraAPY_sample average_sample or0_def)

section \<open>Claim C4: the two APY averages\<close>

lemma find_map_update:
  assumes "\<And>v. address (F v) = address v"
  shows "List.find (\<lambda>v. address v = a) (map (\<lambda>v. if address v = a then F v else v) xs) =
           map_option F (List.find (\<lambda>v. address v = a) xs)"
  by (induction xs) (auto simp: assms)

lemma withAPY_address: "address (withAPY v m) = address v"
  by (simp add: withAPY_def)

lemma withAverages_address: "address (withAverages x eras v) = address v"
  by (simp add: withAverages_def)


lemma calculateAverages_cache:
  "validatorCache (calculateAverages a s) a =
     (case List.find (\<lambda>v. address v = a) (displayedValidators s) of
        None \<Rightarrow> validatorCache s a
      | Some v \<Rightarrow> Some (withAverages v (historicalEras s) v))"
  by (simp add: calculateAverages_def Let_def find_map_update withAverages_address cachePut_def
      split: option.splits)

text \<open>
  Whatever the service answers, the \<^verbatim>\<open>averageAPY\<close> that \<^verbatim>\<open>calculateValidatorAPY\<close> leaves in the
  cache for a displayed validator is the mean of the non-zero entries of \<^verbatim>\<open>apyByEra\<close>: the
  mean over all entries, stored first (lines 1118-1143), is overwritten by
  \<^verbatim>\<open>calculateAverages\<close> (lines 152-167).
\<close>

lemma apyItem_eras:
  "historicalEras (snd (snd (apyItem api a v era (acc, s)))) = historicalEras s"
  unfolding apyItem_def Let_def ask_def
  by (auto split: reply.splits option.splits)

lemma runItems_apyItem_eras:
  "historicalEras (snd (snd (runItems (apyItem api a v) xs (acc, s)))) = historicalEras s"
proof (induction xs arbitrary: acc s)
  case Nil
  show ?case by simp
next
  case (Cons x xs)
  obtain r acc1 s1 where f: "apyItem api a v x (acc, s) = (r, acc1, s1)"
    by (cases "apyItem api a v x (acc, s)") auto
  obtain rs acc2 s2 where g: "runItems (apyItem api a v) xs (acc1, s1) = (rs, acc2, s2)"
    by (cases "runItems (apyItem api a v) xs (acc1, s1)") auto
  have "historicalEras s1 = historicalEras s" using apyItem_eras [of api a v x acc s] f by simp
  moreover have "historicalEras s2 = historicalEras s1" using Cons.IH [of acc1 s1] g by simp
  ultimately show ?case using f g by simp
qed

lemma displayed_averageAPY_active_only:
  assumes "List.find (\<lambda>v. address v = a) (displayedValidators s) = Some v"
  shows "\<exists>u. validatorCache (calculateValidatorAPY api a s) a = Some u \<and>
           averageAPY (rewards u) =
             averageOr 0 (filter (\<lambda>x. x \<noteq> 0)
                            (definedAt (apyByEra (rewards u)) (historicalEras s)))"
proof -
  let ?r = "runItems (apyItem api a v) (historicalEras s) ([], s\<lparr>loadingAPY := True\<rparr>)"
  let ?m = "fst (snd ?r)"
  let ?s2 = "snd (snd ?r)"
  let ?s3 = "(cachePut a (withAPY v ?m) ?s2)
               \<lparr>displayedValidators :=
                  map (\<lambda>w. if address w = a then withAPY w ?m else w) (displayedValidators s),
                loadingAPY := False\<rparr>"
  have c: "calculateValidatorAPY api a s = calculateAverages a ?s3"
    using assms
    by (cases "snd ?r")
      (simp add: calculateValidatorAPY_def Let_def fold_batches_snd cong: if_cong)
  have e: "historicalEras ?s3 = historicalEras s"
    using runItems_apyItem_eras [of api a v "historicalEras s" "[]" "s\<lparr>loadingAPY := True\<rparr>"]
    by (simp add: cachePut_def)
  show ?thesis unfolding c
    using assms
    by (simp add: calculateAverages_cache find_map_update withAPY_address e)
      (simp add: withAverages_def withAPY_def truthyAPYs_def)
qed

text \<open>
  Claim C4 fails on the code for a validator that is displayed. Selecting the validator
  \<open>A\<close> of the store \<open>showingA\<close> against the sample service fetches its history and runs
  \<^verbatim>\<open>calculateValidatorAPY\<close> over the eras 3, 2, 1 and 0. The era 0, where \<open>A\<close> has no points,
  gets no entry in \<^verbatim>\<open>apyByEra\<close>; the era 1, of commission 100%, gets the APY 0. The mean over
  the three entries is 73050, but the stored \<^verbatim>\<open>averageAPY\<close> is 109575, the mean over the
  non-zero entries, equal to \<^verbatim>\<open>activeOnlyAverageAPY\<close>: \<^verbatim>\<open>calculateAverages\<close>, called last,
  overwrites it. The same happens to the map \<^verbatim>\<open>{1: 10, 2: 0, 3: 20}\<close> with the averages 10
  and 15: \<^verbatim>\<open>calculateAverages\<close> leaves \<^verbatim>\<open>averageAPY\<close> 15.
\<close>

theorem averageAPY_overwritten:
  "map_option (\<lambda>v. (apyByEra (rewards v), averageAPY (rewards v), activeOnlyAverageAPY (rewards v)))
     (validatorCache (setSelectedHistoricalValidator sampleRemote (Some ''A'') showingA) ''A'') =
     Some ([(3, 146100), (2, 73050), (1, 0)], 109575, 109575) \<and>
   allErasAverage [(3, 146100), (2, 73050), (1, 0)] = 73050 \<and>
   map (\<lambda>v. (apyByEra (rewards v), averageAPY (rewards v), activeOnlyAverageAPY (rewards v)))
     (displayedValidators (calculateAverages ''A'' tenZeroTwenty)) =
     [([(1, 10), (2, 0), (3, 20)], 15, 15)]"
  by (simp add: apy_defs history_defs eraAPY_sample average_sample tenZeroTwenty_def or0_def)

section \<open>Claim C3: eras without points, total points or stake\<close>




















section \<open>Claim C2: the precision of the monetary quantities\<close>

lemma round_half_even_half: "\<bar>of_int (round_half_even m) - m\<bar> \<le> 1 / 2"
proof -
  have "\<bar>of_int (round_half_even m) - m\<bar> \<le> \<bar>of_int \<lfloor>m\<rfloor> - m\<bar>"
    "\<bar>of_int (round_half_even m) - m\<bar> \<le> \<bar>of_int (\<lfloor>m\<rfloor> + 1) - m\<bar>"
    by (rule round_half_even_nearest)+
  moreover have "of_int \<lfloor>m\<rfloor> \<le> m" "m < of_int \<lfloor>m\<rfloor> + 1" by linarith+
  ultimately show ?thesis by (simp del: of_int_floor_le)
qed

lemma fl_relative:
  assumes "0 < x" and "pow2 (- 1022) \<le> x"
  shows "\<bar>fl x - x\<bar> \<le> x / 2 ^ 53"
proof -
  define E where "E = max (ilog2 x) (- 1022) - 52"
  define m where "m = x / pow2 E"
  have p: "0 < pow2 E" by (rule pow2_pos)
  have x: "x = m * pow2 E" using p by (simp add: m_def)
  have il: "- 1022 \<le> ilog2 x"
  proof (rule ccontr)
    assume "\<not> - 1022 \<le> ilog2 x"
    then have "ilog2 x + 1 \<le> - 1022" by simp
    then have "pow2 (ilog2 x + 1) \<le> pow2 (- 1022)" by (rule pow2_mono)
    then show False using ilog2_bounds [OF assms(1)] assms(2) by linarith
  qed
  then have E: "E = ilog2 x - 52" unfolding E_def by simp
  have flx: "fl x = of_int (round_half_even m) * pow2 E"
    unfolding m_def E_def by (rule fl_pos [OF assms(1)])
  have "fl x - x = (of_int (round_half_even m) - m) * pow2 E"
    unfolding flx by (subst x) (simp add: left_diff_distrib)
  then have "\<bar>fl x - x\<bar> = \<bar>of_int (round_half_even m) - m\<bar> * pow2 E"
    using p by (simp add: abs_mult)
  also have "\<dots> \<le> (1 / 2) * pow2 E"
    using round_half_even_half [of m] p by (intro mult_right_mono) auto
  also have "\<dots> = pow2 (ilog2 x) / 2 ^ 53"
  proof -
    have "pow2 (ilog2 x) = pow2 (52 + E)" by (simp add: E)
    also have "\<dots> = pow2 52 * pow2 E" by (rule pow2_add)
    also have "pow2 52 = 2 ^ 52" by (simp add: pow2_def)
    finally show ?thesis by simp
  qed
  also have "\<dots> \<le> x / 2 ^ 53"
    using ilog2_bounds [OF assms(1)] by (simp add: divide_right_mono)
  finally show ?thesis .
qed

lemma fl_nonneg: "0 \<le> x \<Longrightarrow> 0 \<le> fl x"
proof (cases "x = 0")
  case True
  then show ?thesis by (simp add: fl_def)
next
  case False
  assume "0 \<le> x"
  with False have x: "0 < x" by simp
  define E where "E = max (ilog2 x) (- 1022) - 52"
  have "0 \<le> x / pow2 E" using x pow2_pos [of E] by simp
  then have "0 \<le> \<lfloor>x / pow2 E\<rfloor>" by simp
  then have "0 \<le> round_half_even (x / pow2 E)"
    by (simp add: round_half_even_def Let_def)
  then show ?thesis using pow2_pos [of E] by (simp add: fl_pos [OF x] E_def)
qed

lemma fl_int:
  assumes "0 \<le> n" and "n \<le> 2 ^ 53"
  shows "fl (of_int n) = of_int n"
proof (cases "n = 0")
  case True
  then show ?thesis by (simp add: fl_def)
next
  case False
  with assms have n: "0 < n" by simp
  have "\<bar>fl (of_int n) - of_int n\<bar> \<le> \<bar>of_int n * pow2 0 - of_int n\<bar>"
    by (rule fl_nearest) (use n assms in simp_all)
  then show ?thesis by (simp add: pow2_def)
qed

lemma fl_le_int:
  assumes "0 < x" and "x \<le> of_int n" and "n \<le> 2 ^ 53"
  shows "fl x \<le> of_int n"
proof -
  have "(0::rat) < of_int n" using assms(1,2) by linarith
  then have n: "0 < n" by simp
  have "\<bar>fl x - x\<bar> \<le> \<bar>of_int n * pow2 0 - x\<bar>"
    by (rule fl_nearest [OF assms(1) n assms(3)]) simp
  then show ?thesis using assms(2) by (simp add: pow2_def)
qed

lemma validatorReward_close:
  fixes R :: int and p P :: nat
  assumes "0 \<le> R" and "R < 2 ^ 52" and "0 < p" and "p \<le> P" and "P < 2 ^ 32"
  shows "\<bar>validatorRewardOf R (of_nat p) (of_nat P) - \<lfloor>of_int R * of_nat p / (of_nat P :: rat)\<rfloor>\<bar> \<le> 2"
proof (cases "R = 0")
  case True
  then show ?thesis
    by (simp add: validatorRewardOf_def Number_def js_mul_def BigInt_floor_def fl_def Let_def)
next
  case False
  with assms(1) have Rpos: "0 < R" by simp
  define e :: rat where "e = 1 / 2 ^ 53"
  define q0 :: rat where "q0 = of_nat p / of_nat P"
  define q where "q = fl q0"
  define y where "y = of_int R * q"
  define x where "x = of_int R * q0"
  define prod where "prod = fl y"
  have e: "0 < e" "e \<le> 1" by (simp_all add: e_def)
  have Ppos: "(0::rat) < of_nat P" using assms(3,4) by simp
  have q0pos: "0 < q0" using assms(3) Ppos by (simp add: q0_def)
  have q0le: "q0 \<le> 1" using assms(4) Ppos by (simp add: q0_def)
  have q0low: "1 / 2 ^ 32 \<le> q0"
  proof -
    have "(of_nat P :: rat) \<le> 2 ^ 32" using assms(5)
      by (metis less_imp_le of_nat_le_numeral_power_cancel_iff)
    then have "1 / 2 ^ 32 \<le> 1 / (of_nat P :: rat)" using Ppos by (simp add: frac_le)
    also have "\<dots> \<le> q0" using assms(3) Ppos by (simp add: q0_def divide_right_mono)
    finally show ?thesis .
  qed
  have small: "pow2 (- 1022) \<le> 1 / 2 ^ 33"
  proof -
    have "pow2 (- 1022) \<le> pow2 (- 33)" by (rule pow2_mono) simp
    then show ?thesis by (simp add: pow2_def)
  qed
  have "pow2 (- 1022) \<le> q0" using small q0low by simp
  then have h1: "\<bar>q - q0\<bar> \<le> q0 * e" unfolding q_def e_def using fl_relative [OF q0pos] by simp
  have Rr: "(1::rat) \<le> of_int R" using Rpos by simp
  have Rlt: "(of_int R :: rat) < 2 ^ 52"
  proof -
    have "(of_int R :: rat) < of_int (2 ^ 52)" using assms(2) by (simp only: of_int_less_iff)
    then show ?thesis by simp
  qed
  have qlow: "q0 / 2 \<le> q"
  proof -
    have "q0 * e \<le> q0 / 2" using q0pos by (simp add: e_def)
    then show ?thesis using h1 by linarith
  qed
  have qpos: "0 < q" using qlow q0pos by linarith
  have ypos: "0 < y" using Rpos qpos by (simp add: y_def)
  have ylow: "pow2 (- 1022) \<le> y"
  proof -
    have "1 / 2 ^ 33 \<le> q0 / 2" using q0low by simp
    also have "\<dots> \<le> q" by (rule qlow)
    also have "\<dots> = 1 * q" by simp
    also have "\<dots> \<le> of_int R * q" using Rr qpos by (intro mult_right_mono) auto
    finally show ?thesis using small by (simp add: y_def)
  qed
  have h2: "\<bar>prod - y\<bar> \<le> y * e" unfolding prod_def e_def using fl_relative [OF ypos ylow] by simp
  have xpos: "0 < x" using Rpos q0pos by (simp add: x_def)
  have xlt: "x < 2 ^ 52"
  proof -
    have "x \<le> of_int R * 1" unfolding x_def using q0le Rr by (intro mult_left_mono) auto
    then show ?thesis using Rlt by simp
  qed
  have h3: "\<bar>y - x\<bar> \<le> x * e"
  proof -
    have "y - x = of_int R * (q - q0)" by (simp add: y_def x_def right_diff_distrib)
    then have "\<bar>y - x\<bar> = of_int R * \<bar>q - q0\<bar>" using Rr by (simp add: abs_mult)
    also have "\<dots> \<le> of_int R * (q0 * e)" using h1 Rr by (intro mult_left_mono) auto
    finally show ?thesis by (simp add: x_def mult.assoc)
  qed
  have xe: "x * e < 1 / 2" using xlt by (simp add: e_def)
  have ye: "y * e < 1"
  proof -
    have "y \<le> x + x * e" using h3 by linarith
    then have "y * e \<le> (x + x * e) * e" using e(1) by (intro mult_right_mono) auto
    also have "\<dots> = x * e + (x * e) * e" by (simp add: distrib_right)
    also have "(x * e) * e \<le> (x * e) * 1" using xpos e by (intro mult_left_mono) auto
    finally show ?thesis using xe by linarith
  qed
  have close: "\<bar>prod - x\<bar> < 3 / 2" using h2 h3 xe ye by linarith
  have vr: "validatorRewardOf R (of_nat p) (of_nat P) = \<lfloor>prod\<rfloor>"
    using assms(1,2)
    by (simp add: validatorRewardOf_def Let_def js_div_def js_mul_def Number_def BigInt_floor_def
        prod_def y_def q_def q0_def fl_int)
  have xe2: "of_int R * of_nat p / (of_nat P :: rat) = x" by (simp add: x_def q0_def)
  have "of_int \<lfloor>prod\<rfloor> \<le> prod" "prod < of_int \<lfloor>prod\<rfloor> + 1"
    "of_int \<lfloor>x\<rfloor> \<le> x" "x < of_int \<lfloor>x\<rfloor> + 1" by linarith+
  then have "(of_int \<lfloor>prod\<rfloor> :: rat) < of_int \<lfloor>x\<rfloor> + 3" "(of_int \<lfloor>x\<rfloor> :: rat) < of_int \<lfloor>prod\<rfloor> + 3"
    using close by linarith+
  then have "(of_int \<lfloor>prod\<rfloor> :: rat) < of_int (\<lfloor>x\<rfloor> + 3)" "(of_int \<lfloor>x\<rfloor> :: rat) < of_int (\<lfloor>prod\<rfloor> + 3)"
    by simp_all
  then have "\<lfloor>prod\<rfloor> < \<lfloor>x\<rfloor> + 3" "\<lfloor>x\<rfloor> < \<lfloor>prod\<rfloor> + 3" by (simp_all only: of_int_less_iff)
  then show ?thesis unfolding vr xe2 by linarith
qed

lemma commissionPart_range:
  assumes "0 \<le> c" and "c \<le> 1"
  shows "0 \<le> BigInt_floor (js_mul c 1000000000) \<and> BigInt_floor (js_mul c 1000000000) \<le> 1000000000"
proof -
  have 1: "0 \<le> fl (c * 1000000000)" using assms(1) by (intro fl_nonneg) simp
  have 2: "fl (c * 1000000000) \<le> of_int 1000000000"
  proof (cases "c = 0")
    case True
    then show ?thesis by (simp add: fl_def)
  next
    case False
    with assms(1) have "0 < c * 1000000000" by simp
    moreover have "c * 1000000000 \<le> of_int 1000000000" using assms(2) by simp
    ultimately show ?thesis by (rule fl_le_int) simp
  qed
  have "\<lfloor>fl (c * 1000000000)\<rfloor> \<le> \<lfloor>(of_int 1000000000 :: rat)\<rfloor>" using 2 by (rule floor_mono)
  then show ?thesis using 1 by (simp add: BigInt_floor_def js_mul_def)
qed

lemma nominatorReward_integer:
  assumes "0 \<le> vr" and "0 \<le> c" and "c \<le> 1"
  shows "nominatorRewardOf vr c =
           (vr * (1000000000 - \<lfloor>fl (c * 1000000000)\<rfloor>)) div 1000000000 \<and>
         0 \<le> nominatorRewardOf vr c \<and> nominatorRewardOf vr c \<le> vr"
proof -
  define cp where "cp = \<lfloor>fl (c * 1000000000)\<rfloor>"
  have cp: "0 \<le> cp" "cp \<le> 1000000000"
    using commissionPart_range [OF assms(2,3)] by (simp_all add: cp_def BigInt_floor_def js_mul_def)
  define a where "a = vr * (1000000000 - cp)"
  have a: "0 \<le> a" "a \<le> vr * 1000000000"
    using assms(1) cp by (simp_all add: a_def mult_left_mono)
  have n: "nominatorRewardOf vr c = bigint_div a 1000000000"
    by (simp add: nominatorRewardOf_def Let_def BigInt_floor_def js_mul_def cp_def a_def)
  have b: "bigint_div a 1000000000 = a div 1000000000"
    using a(1) by (cases "a = 0") (simp_all add: bigint_div_def)
  have "a div 1000000000 \<le> vr * 1000000000 div 1000000000" using a(2) by (rule zdiv_mono1) simp
  then have "a div 1000000000 \<le> vr" by simp
  moreover have "0 \<le> a div 1000000000" using a(1) by (simp add: pos_imp_zdiv_nonneg_iff)
  ultimately show ?thesis unfolding n b by (simp add: a_def cp_def)
qed

lemma validatorReward_counter:
  "validatorRewardOf 49 1 49 = 0" "\<lfloor>(49 :: rat) * 1 / 49\<rfloor> = 1"
  "validatorRewardOf 2800000000000000 20000 6000003 = 9333328666669"
  "\<lfloor>(2800000000000000 :: rat) * 20000 / 6000003\<rfloor> = 9333328666668"
  "BigInt_floor (js_mul (js_div 997 1000000000) 1000000000) = 996"
  by code_simp+

text \<open>
  Claim C2, as the code has it. \<^verbatim>\<open>validatorReward\<close> is the floor of a product of doubles,
  \<^verbatim>\<open>BigInt(Math.floor(Number(eraReward) * (validatorPoints / totalEraPoints)))\<close>: for an era
  reward below \<open>2^52\<close> and 32-bit points with \<open>0 < p \<le> P\<close> it is within 2 of the exact
  \<open>floor(R * p / P)\<close>, and need not be equal to it. \<^verbatim>\<open>nominatorReward\<close> is then computed on
  integers only: for a non-negative validator reward and a commission between 0 and 1 it
  is the integer quotient of \<open>validatorReward * (10^9 - commissionPart)\<close> by \<open>10^9\<close>, where
  \<open>commissionPart\<close> is the floor of the double \<open>commission * 10^9\<close>, and it lies between
  0 and the validator reward. The APY is the annualized ratio, in doubles, of that integer
  and the stake.
\<close>

theorem monetary_precision:
  "(0 \<le> R \<and> R < 2 ^ 52 \<and> 0 < p \<and> p \<le> P \<and> P < 2 ^ 32 \<longrightarrow>
      \<bar>validatorRewardOf R (of_nat p) (of_nat P) -
        \<lfloor>of_int R * of_nat p / (of_nat P :: rat)\<rfloor>\<bar> \<le> 2) \<and>
   (0 \<le> vr \<and> 0 \<le> c \<and> c \<le> 1 \<longrightarrow>
      nominatorRewardOf vr c =
        (vr * (1000000000 - \<lfloor>fl (c * 1000000000)\<rfloor>)) div 1000000000 \<and>
      0 \<le> nominatorRewardOf vr c \<and> nominatorRewardOf vr c \<le> vr) \<and>
   eraAPY R (of_nat p) (of_nat P) c S =
     annualize (nominatorRewardOf (validatorRewardOf R (of_nat p) (of_nat P)) c) S"
proof (intro conjI impI)
  assume "0 \<le> R \<and> R < 2 ^ 52 \<and> 0 < p \<and> p \<le> P \<and> P < 2 ^ 32"
  then show "\<bar>validatorRewardOf R (of_nat p) (of_nat P) -
        \<lfloor>of_int R * of_nat p / (of_nat P :: rat)\<rfloor>\<bar> \<le> 2"
    using validatorReward_close [of R p P] by blast
next
  assume h: "0 \<le> vr \<and> 0 \<le> c \<and> c \<le> 1"
  show "nominatorRewardOf vr c =
        (vr * (1000000000 - \<lfloor>fl (c * 1000000000)\<rfloor>)) div 1000000000"
    "0 \<le> nominatorRewardOf vr c" "nominatorRewardOf vr c \<le> vr"
    using nominatorReward_integer [of vr c] h by blast+
next
  show "eraAPY R (of_nat p) (of_nat P) c S =
     annualize (nominatorRewardOf (validatorRewardOf R (of_nat p) (of_nat P)) c) S"
    by (simp add: eraAPY_def)
qed

text \<open>
  An era reward of 280000 DOT, 20000 points of 6000003, and a validator reward of 250
  with a commission of one half.
\<close>

theorem monetary_precision_witness:
  "(0::int) \<le> 2800000000000000 \<and> (2800000000000000::int) < 2 ^ 52 \<and>
   (0::nat) < 20000 \<and> (20000::nat) \<le> 6000003 \<and> (6000003::nat) < 2 ^ 32 \<and>
   \<bar>validatorRewardOf 2800000000000000 (of_nat 20000) (of_nat 6000003) -
     \<lfloor>of_int 2800000000000000 * of_nat 20000 / (of_nat 6000003 :: rat)\<rfloor>\<bar> \<le> 2 \<and>
   (0::int) \<le> 250 \<and> (0::rat) \<le> 1 / 2 \<and> (1 / 2 :: rat) \<le> 1 \<and>
   nominatorRewardOf 250 (1 / 2) =
     (250 * (1000000000 - \<lfloor>fl (1 / 2 * 1000000000)\<rfloor>)) div 1000000000 \<and>
   0 \<le> nominatorRewardOf 250 (1 / 2) \<and> nominatorRewardOf 250 (1 / 2) \<le> 250"
proof -
  have h: "(0::int) \<le> 2800000000000000 \<and> (2800000000000000::int) < 2 ^ 52 \<and>
           (0::nat) < 20000 \<and> (20000::nat) \<le> 6000003 \<and> (6000003::nat) < 2 ^ 32"
    "(0::int) \<le> 250 \<and> (0::rat) \<le> 1 / 2 \<and> (1 / 2 :: rat) \<le> 1"
    by simp_all
  show ?thesis
    using monetary_precision [of 2800000000000000 20000 6000003 250 "1 / 2"] h by blast
qed

text \<open>
  Claim C2 as stated fails: the validator reward is not the exact floor. For
  \<open>R = 49, p = 1, P = 49\<close> the double product \<open>49 * (1 / 49)\<close> is below 1 and the code
  gets 0 where \<open>floor(R * p / P)\<close> is 1; for an era reward of 280000 DOT with 20000 points
  of 6000003 the code gets one planck more than the exact floor.
\<close>

theorem monetary_precision_counterexample:
  "validatorRewardOf 49 1 49 \<noteq> \<lfloor>(49 :: rat) * 1 / 49\<rfloor> \<and>
   validatorRewardOf 2800000000000000 20000 6000003 \<noteq>
     \<lfloor>(2800000000000000 :: rat) * 20000 / 6000003\<rfloor>"
  by (simp only: validatorReward_counter) simp

end
